theory Spec2Isabelle
  imports Main
begin

section \<open>Values of the Python runtime\<close>

text \<open>
  The two scripts \<^verbatim>\<open>add_proof_to_control.py\<close> and \<^verbatim>\<open>call_hyperproof_api.py\<close> talk to a
  remote HTTP API. Everything outside the scripts (the process environment, the network, the
  file system) is a parameter of the model, collected in the record \<open>world\<close>; everything the
  scripts do to the outside (requests sent, lines printed, log records) is collected in the
  record \<open>effects\<close>, which every function takes and returns.

  A decoded JSON document and the value a function returns are Python values. \<open>PyNone\<close> is
  Python's \<^verbatim>\<open>None\<close> (and JSON's \<^verbatim>\<open>null\<close>). Numbers are integers: the scripts only ever test a
  number for being zero. A dictionary is the list of its items in insertion order, with no
  key twice. A string is the sequence of its bytes in UTF-8, as it is printed and sent.
\<close>

datatype pyval =
    PyNone
  | PyBool bool
  | PyInt int
  | PyStr string
  | PyList "pyval list"
  | PyDict "(string \<times> pyval) list"

text \<open>Python's truth test, as applied by \<^verbatim>\<open>if x:\<close> and \<^verbatim>\<open>not x\<close>.\<close>

fun truthy :: "pyval \<Rightarrow> bool" where
  "truthy PyNone = False"
| "truthy (PyBool b) = b"
| "truthy (PyInt i) = (i \<noteq> 0)"
| "truthy (PyStr s) = (s \<noteq> [])"
| "truthy (PyList xs) = (xs \<noteq> [])"
| "truthy (PyDict kvs) = (kvs \<noteq> [])"

text \<open>
  An optional string argument or environment variable: \<open>None\<close> is \<^verbatim>\<open>None\<close>, and the truth
  test fails on \<^verbatim>\<open>None\<close> and on the empty string.
\<close>

fun truthy_str :: "string option \<Rightarrow> bool" where
  "truthy_str None = False"
| "truthy_str (Some s) = (s \<noteq> [])"

fun type_name :: "pyval \<Rightarrow> string" where
  "type_name PyNone = ''NoneType''"
| "type_name (PyBool _) = ''bool''"
| "type_name (PyInt _) = ''int''"
| "type_name (PyStr _) = ''str''"
| "type_name (PyList _) = ''list''"
| "type_name (PyDict _) = ''dict''"

subsection \<open>Exceptions\<close>

text \<open>
  The exception classes the scripts' \<^verbatim>\<open>except\<close> clauses tell apart, each with its message.
  \<open>RequestException\<close> stands for the transport failures of the HTTP library (connection
  refused, timeout, \ldots). \<open>HTTPError\<close> carries the text of the response it was raised
  for. The flag of \<open>JSONDecodeError\<close> says whether the class raised by the HTTP library's
  decoder is also a subclass of its \<open>RequestException\<close>, which depends on the library's
  version. \<open>OtherException\<close> is any other subclass of \<^verbatim>\<open>Exception\<close>.
\<close>

datatype exn =
    RequestException string
  | HTTPError string string
  | JSONDecodeError bool string
  | FileNotFoundError string
  | AttributeError string
  | TypeError string
  | UnboundLocalError string
  | OtherException string

fun isinstance_RequestException :: "exn \<Rightarrow> bool" where
  "isinstance_RequestException (RequestException _) = True"
| "isinstance_RequestException (HTTPError _ _) = True"
| "isinstance_RequestException (JSONDecodeError via_requests _) = via_requests"
| "isinstance_RequestException _ = False"

fun isinstance_JSONDecodeError :: "exn \<Rightarrow> bool" where
  "isinstance_JSONDecodeError (JSONDecodeError _ _) = True"
| "isinstance_JSONDecodeError _ = False"

fun isinstance_HTTPError :: "exn \<Rightarrow> bool" where
  "isinstance_HTTPError (HTTPError _ _) = True"
| "isinstance_HTTPError _ = False"

fun isinstance_FileNotFoundError :: "exn \<Rightarrow> bool" where
  "isinstance_FileNotFoundError (FileNotFoundError _) = True"
| "isinstance_FileNotFoundError _ = False"

text \<open>\<^verbatim>\<open>str(e)\<close>, as interpolated by \<^verbatim>\<open>{e}\<close> in an f-string.\<close>

fun str_exn :: "exn \<Rightarrow> string" where
  "str_exn (RequestException m) = m"
| "str_exn (HTTPError m _) = m"
| "str_exn (JSONDecodeError _ m) = m"
| "str_exn (FileNotFoundError m) = m"
| "str_exn (AttributeError m) = m"
| "str_exn (TypeError m) = m"
| "str_exn (UnboundLocalError m) = m"
| "str_exn (OtherException m) = m"

text \<open>\<^verbatim>\<open>err.response.text\<close> of an \<open>HTTPError\<close>.\<close>

fun response_text_of :: "exn \<Rightarrow> string" where
  "response_text_of (HTTPError _ t) = t"
| "response_text_of _ = []"

text \<open>
  How a function call ends: it returns a value, an exception leaves it, or
  \<^verbatim>\<open>sys.exit(n)\<close> ends the process with status \<open>n\<close>.
\<close>

datatype 'a result = Returned 'a | Raised exn | Exited int

subsection \<open>Decimal numerals\<close>

fun str_nat :: "nat \<Rightarrow> string" where
  "str_nat n =
     (if n < 10 then [char_of (48 + n)]
      else str_nat (n div 10) @ [char_of (48 + n mod 10)])"

declare str_nat.simps [simp del]

definition str_int :: "int \<Rightarrow> string" where
  "str_int i = (if i < 0 then CHR ''-'' # str_nat (nat (- i)) else str_nat (nat i))"

section \<open>Requests, responses and the world\<close>

text \<open>
  One part of a multipart upload, as the tuple \<^verbatim>\<open>(name, f)\<close> or \<^verbatim>\<open>(name, f, type)\<close> handed
  to the \<^verbatim>\<open>files=\<close> argument: the file name, the bytes read from the open file, and the
  content type of the part when the tuple has a third component.
\<close>

record file_part =
  part_filename :: string
  part_content :: string
  part_type :: "string option"

text \<open>
  The body of a request: none, a form (\<^verbatim>\<open>data=\<close> alone; a value may be \<^verbatim>\<open>None\<close>), a JSON
  object (\<^verbatim>\<open>json=\<close>), or multipart form data (\<^verbatim>\<open>files=\<close>, with the fields of \<^verbatim>\<open>data=\<close>).
\<close>

datatype body =
    NoBody
  | FormData "(string \<times> string option) list"
  | JsonBody "(string \<times> string) list"
  | Multipart "(string \<times> file_part) list" "(string \<times> string option) list"

record request =
  meth :: string
  url :: string
  headers :: "(string \<times> string) list"
  payload :: body

text \<open>
  A response: its status code and reason phrase, the URL it answers, its body as text, and
  what \<^verbatim>\<open>response.json()\<close> gives: the decoded value, or the exception decoding raises.
\<close>

record response =
  status_code :: int
  reason :: string
  resp_url :: string
  resp_text :: string
  resp_json :: "exn + pyval"

text \<open>
  The world: the two module globals read from the process environment at import, the
  network's answer to a request, the result of opening a file for reading, and two
  renderings left to the Python runtime: of a value other than a string inside an f-string,
  and \<^verbatim>\<open>json.dumps(v, indent=2)\<close>.

  The HTTP call answers with a response or fails. It fails with one of the HTTP library's
  transport exceptions (a \<open>RequestException\<close>) or, exceptionally, with an exception of
  another class; decoding JSON and checking the status happen only later, in
  \<^verbatim>\<open>response.json()\<close> and \<^verbatim>\<open>response.raise_for_status()\<close>, so the call itself raises neither a
  \<open>JSONDecodeError\<close> nor an \<open>HTTPError\<close>.
\<close>

datatype net_error = Transport string | Unexpected string

fun exn_of_net_error :: "net_error \<Rightarrow> exn" where
  "exn_of_net_error (Transport m) = RequestException m"
| "exn_of_net_error (Unexpected m) = OtherException m"

record world =
  CLIENT_ID :: "string option"
  CLIENT_SECRET :: "string option"
  http :: "request \<Rightarrow> net_error + response"
  open_rb :: "string \<Rightarrow> exn + string"
  py_format :: "pyval \<Rightarrow> string"
  json_dumps :: "pyval \<Rightarrow> string"

datatype level = INFO | ERROR

record effects =
  sent :: "request list"
  stdout :: "string list"
  logged :: "(level \<times> string) list"

definition no_effects :: effects where
  "no_effects = \<lparr>sent = [], stdout = [], logged = []\<rparr>"

definition print :: "string \<Rightarrow> effects \<Rightarrow> effects" where
  "print line s = s\<lparr>stdout := stdout s @ [line]\<rparr>"

definition logger_info :: "string \<Rightarrow> effects \<Rightarrow> effects" where
  "logger_info msg s = s\<lparr>logged := logged s @ [(INFO, msg)]\<rparr>"

definition logger_error :: "string \<Rightarrow> effects \<Rightarrow> effects" where
  "logger_error msg s = s\<lparr>logged := logged s @ [(ERROR, msg)]\<rparr>"

text \<open>\<^verbatim>\<open>requests.post\<close> and \<^verbatim>\<open>requests.get\<close>: the request goes out, the world answers.\<close>

definition send :: "world \<Rightarrow> request \<Rightarrow> effects \<Rightarrow> (exn + response) \<times> effects" where
  "send w req s =
     (case http w req of Inl f \<Rightarrow> Inl (exn_of_net_error f) | Inr r \<Rightarrow> Inr r,
      s\<lparr>sent := sent s @ [req]\<rparr>)"

text \<open>\<^verbatim>\<open>{v}\<close> in an f-string: a string is inserted as it is.\<close>

fun format :: "world \<Rightarrow> pyval \<Rightarrow> string" where
  "format w (PyStr s) = s"
| "format w v = py_format w v"

text \<open>
  \<^verbatim>\<open>response.raise_for_status()\<close>, which the scripts comment as ``Raise an exception for
  4xx/5xx errors'': the exception raised, if any.
\<close>

definition raise_for_status :: "response \<Rightarrow> exn option" where
  "raise_for_status r =
     (if 400 \<le> status_code r \<and> status_code r < 500 then
        Some (HTTPError (str_int (status_code r) @ '' Client Error: '' @ reason r
                           @ '' for url: '' @ resp_url r) (resp_text r))
      else if 500 \<le> status_code r \<and> status_code r < 600 then
        Some (HTTPError (str_int (status_code r) @ '' Server Error: '' @ reason r
                           @ '' for url: '' @ resp_url r) (resp_text r))
      else None)"

text \<open>\<^verbatim>\<open>d.get(k)\<close>: only a dictionary has the method.\<close>

fun dict_get :: "pyval \<Rightarrow> string \<Rightarrow> exn + pyval" where
  "dict_get (PyDict kvs) k = Inr (case map_of kvs k of None \<Rightarrow> PyNone | Some v \<Rightarrow> v)"
| "dict_get v k =
     Inl (AttributeError ([CHR 0x27] @ type_name v @ [CHR 0x27]
            @ '' object has no attribute '' @ [CHR 0x27] @ ''get'' @ [CHR 0x27]))"

text \<open>The two marks that start the scripts' messages, as their UTF-8 bytes.\<close>

definition cross_mark :: string where
  "cross_mark = [CHR 0xE2, CHR 0x9D, CHR 0x8C]"

definition check_mark :: string where
  "check_mark = [CHR 0xE2, CHR 0x9C, CHR 0x85]"

section \<open>add\_proof\_to\_control.py\<close>

definition CONTROLS_API_URL :: string where
  "CONTROLS_API_URL = ''https://api.hyperproof.app/v1/controls''"

definition PROOF_API_URL :: string where
  "PROOF_API_URL = ''https://api.hyperproof.app/v1/proof/''"

definition LABELS_API_URL :: string where
  "LABELS_API_URL = ''https://api.hyperproof.app/v1/labels/''"

definition OAUTH_TOKEN_URL :: string where
  "OAUTH_TOKEN_URL = ''https://accounts.hyperproof.app/oauth/token''"

text \<open>
  The \<^verbatim>\<open>except\<close> clauses of \<open>get_access_token\<close>, in their order, applied to an exception
  raised in the \<^verbatim>\<open>try\<close> block. The second clause reads the local variable \<^verbatim>\<open>response\<close>,
  which is unbound when the exception came from the HTTP call itself. An exception that
  no clause matches leaves the function.
\<close>

definition get_access_token_except ::
  "exn \<Rightarrow> response option \<Rightarrow> effects \<Rightarrow> pyval result \<times> effects" where
  "get_access_token_except e response s =
     (if isinstance_RequestException e then
        (Returned PyNone,
         print (cross_mark @ '' A network error occurred while getting token: '' @ str_exn e) s)
      else if isinstance_JSONDecodeError e then
        (let s1 = print (cross_mark @ '' Error: Failed to decode JSON response from token URL.'') s
         in case response of
              None \<Rightarrow>
                (Raised (UnboundLocalError ''cannot access local variable response''), s1)
            | Some r \<Rightarrow> (Returned PyNone, print (''Raw Response: '' @ resp_text r) s1))
      else (Raised e, s))"

definition get_access_token ::
  "world \<Rightarrow> string option \<Rightarrow> string option \<Rightarrow> effects \<Rightarrow> pyval result \<times> effects" where
  "get_access_token w client_id client_secret s0 =
     (let s1 = print (''Attempting to fetch access token from '' @ OAUTH_TOKEN_URL @ ''...'') s0;
          data = [(''grant_type'', Some ''client_credentials''),
                  (''client_id'', client_id),
                  (''client_secret'', client_secret)];
          hdrs = [(''Content-Type'', ''application/x-www-form-urlencoded'')]
      in case send w \<lparr>meth = ''POST'', url = OAUTH_TOKEN_URL, headers = hdrs,
                        payload = FormData data\<rparr> s1 of
           (Inl e, s2) \<Rightarrow> get_access_token_except e None s2
         | (Inr response, s2) \<Rightarrow>
             if status_code response = 200 then
               (case resp_json response of
                  Inl e \<Rightarrow> get_access_token_except e (Some response) s2
                | Inr token_data \<Rightarrow>
                    (case dict_get token_data ''access_token'' of
                       Inl e \<Rightarrow> get_access_token_except e (Some response) s2
                     | Inr access_token \<Rightarrow>
                         if truthy access_token then
                           (Returned access_token,
                            print (check_mark @ '' Successfully obtained access token.'') s2)
                         else
                           (Returned PyNone,
                            print (''Response Body: '' @ resp_text response)
                              (print (cross_mark
                                 @ '' Error: 'access_token' not found in response from token URL.'')
                                 s2))))
             else (Returned PyNone, s2))"

text \<open>
  The \<^verbatim>\<open>except\<close> clauses shared, word for word, by the upload functions: a missing file, an
  HTTP error status, then any other exception. Each logs an error and returns \<^verbatim>\<open>None\<close>.
\<close>

definition except_upload :: "string \<Rightarrow> exn \<Rightarrow> effects \<Rightarrow> pyval result \<times> effects" where
  "except_upload file_to_upload e s =
     (if isinstance_FileNotFoundError e then
        (Returned PyNone, logger_error (''File not found at path: '' @ file_to_upload) s)
      else if isinstance_HTTPError e then
        (Returned PyNone,
         logger_error (''HTTP error occurred: '' @ str_exn e @ '' - '' @ response_text_of e) s)
      else
        (Returned PyNone, logger_error (''An unexpected error occurred: '' @ str_exn e) s))"

text \<open>
  The \<^verbatim>\<open>except\<close> clauses of \<open>create_label\<close> and \<open>link_label_to_control\<close>, which open no
  file.
\<close>

definition except_request :: "exn \<Rightarrow> effects \<Rightarrow> pyval result \<times> effects" where
  "except_request e s =
     (if isinstance_HTTPError e then
        (Returned PyNone,
         logger_error (''HTTP error occurred: '' @ str_exn e @ '' - '' @ response_text_of e) s)
      else
        (Returned PyNone, logger_error (''An unexpected error occurred: '' @ str_exn e) s))"

text \<open>
  The upload functions. In \<open>add_proof\<close> the part of the file always carries the content
  type \<^verbatim>\<open>application/json\<close>; in the others it carries the caller's \<open>content_type\<close> when that
  passes the truth test, and none otherwise.
\<close>

definition add_proof ::
  "world \<Rightarrow> string \<Rightarrow> string option \<Rightarrow> string option \<Rightarrow> effects \<Rightarrow> pyval result \<times> effects" where
  "add_proof w file_to_upload object_id object_type s0 =
     (case get_access_token w (CLIENT_ID w) (CLIENT_SECRET w) s0 of
        (Returned access_token, s1) \<Rightarrow>
          if \<not> truthy access_token then
            (Exited 1, print (cross_mark @ '' Halting script: Could not obtain access token.'') s1)
          else
            (let hdrs = [(''Authorization'', ''Bearer '' @ format w access_token),
                         (''Accept'', ''application/json'')];
                 data = (if truthy_str object_id \<and> truthy_str object_type then
                           [(''objectId'', object_id), (''objectType'', object_type)]
                         else []);
                 s2 = print ([CHR 0x0A] @ ''Attempting to upload proof file: '' @ file_to_upload @ ''...'') s1
             in case open_rb w file_to_upload of
                  Inl e \<Rightarrow> except_upload file_to_upload e s2
                | Inr f \<Rightarrow>
                    (let s3 = print (''open '' @ file_to_upload @ '' ........'') s2;
                         files_payload = [(''proof'', \<lparr>part_filename = file_to_upload, part_content = f,
                                             part_type = Some ''application/json''\<rparr>)]
                     in case send w \<lparr>meth = ''POST'', url = PROOF_API_URL, headers = hdrs,
                                       payload = Multipart files_payload data\<rparr> s3 of
                          (Inl e, s4) \<Rightarrow> except_upload file_to_upload e s4
                        | (Inr response, s4) \<Rightarrow>
                            (case raise_for_status response of
                               Some e \<Rightarrow> except_upload file_to_upload e s4
                             | None \<Rightarrow>
                                 (let s5 = logger_info (''Successfully added proof'') s4
                                  in case resp_json response of
                                       Inl e \<Rightarrow> except_upload file_to_upload e s5
                                     | Inr v \<Rightarrow> (Returned v, s5)))))
      | (Raised e, s1) \<Rightarrow> (Raised e, s1)
      | (Exited n, s1) \<Rightarrow> (Exited n, s1))"

definition add_proof_version ::
  "world \<Rightarrow> string \<Rightarrow> string \<Rightarrow> string option \<Rightarrow> effects \<Rightarrow> pyval result \<times> effects" where
  "add_proof_version w proof_id file_to_upload content_type s0 =
     (case get_access_token w (CLIENT_ID w) (CLIENT_SECRET w) s0 of
        (Returned access_token, s1) \<Rightarrow>
          if \<not> truthy access_token then
            (Exited 1, print (cross_mark @ '' Halting script: Could not obtain access token.'') s1)
          else
            (let hdrs = [(''Authorization'', ''Bearer '' @ format w access_token),
                         (''Accept'', ''application/json'')];
                 version_url = PROOF_API_URL @ ''/'' @ proof_id @ ''/versions'';
                 s2 = print (''URL: '' @ version_url)
                        (print (''File: '' @ file_to_upload)
                           (print ([CHR 0x0A] @ ''Attempting to upload new version for proof '' @ proof_id @ ''...'') s1))
             in case open_rb w file_to_upload of
                  Inl e \<Rightarrow> except_upload file_to_upload e s2
                | Inr f \<Rightarrow>
                    (let files_payload = [(''proof'', if truthy_str content_type then
                                             \<lparr>part_filename = file_to_upload, part_content = f,
                                              part_type = content_type\<rparr>
                                           else
                                             \<lparr>part_filename = file_to_upload, part_content = f,
                                              part_type = None\<rparr>)]
                     in case send w \<lparr>meth = ''POST'', url = version_url, headers = hdrs,
                                       payload = Multipart files_payload []\<rparr> s2 of
                          (Inl e, s4) \<Rightarrow> except_upload file_to_upload e s4
                        | (Inr response, s4) \<Rightarrow>
                            (case raise_for_status response of
                               Some e \<Rightarrow> except_upload file_to_upload e s4
                             | None \<Rightarrow>
                                 (let s5 = logger_info (''Successfully added new version for proof '' @ proof_id) s4
                                  in case resp_json response of
                                       Inl e \<Rightarrow> except_upload file_to_upload e s5
                                     | Inr v \<Rightarrow> (Returned v, s5)))))
      | (Raised e, s1) \<Rightarrow> (Raised e, s1)
      | (Exited n, s1) \<Rightarrow> (Exited n, s1))"

definition add_control_proof ::
  "world \<Rightarrow> string \<Rightarrow> string \<Rightarrow> string option \<Rightarrow> effects \<Rightarrow> pyval result \<times> effects" where
  "add_control_proof w control_id file_to_upload content_type s0 =
     (case get_access_token w (CLIENT_ID w) (CLIENT_SECRET w) s0 of
        (Returned access_token, s1) \<Rightarrow>
          if \<not> truthy access_token then
            (Exited 1, print (cross_mark @ '' Halting script: Could not obtain access token.'') s1)
          else
            (let hdrs = [(''Authorization'', ''Bearer '' @ format w access_token),
                         (''Accept'', ''application/json'')];
                 control_proof_url = CONTROLS_API_URL @ ''/'' @ control_id @ ''/proof'';
                 s2 = print (''URL: '' @ control_proof_url)
                        (print (''File: '' @ file_to_upload)
                           (print ([CHR 0x0A] @ ''Attempting to upload proof for control '' @ control_id @ ''...'') s1))
             in case open_rb w file_to_upload of
                  Inl e \<Rightarrow> except_upload file_to_upload e s2
                | Inr f \<Rightarrow>
                    (let files_payload = [(''proof'', if truthy_str content_type then
                                             \<lparr>part_filename = file_to_upload, part_content = f,
                                              part_type = content_type\<rparr>
                                           else
                                             \<lparr>part_filename = file_to_upload, part_content = f,
                                              part_type = None\<rparr>)]
                     in case send w \<lparr>meth = ''POST'', url = control_proof_url, headers = hdrs,
                                       payload = Multipart files_payload []\<rparr> s2 of
                          (Inl e, s4) \<Rightarrow> except_upload file_to_upload e s4
                        | (Inr response, s4) \<Rightarrow>
                            (case raise_for_status response of
                               Some e \<Rightarrow> except_upload file_to_upload e s4
                             | None \<Rightarrow>
                                 (let s5 = logger_info (''Successfully added proof to control '' @ control_id) s4
                                  in case resp_json response of
                                       Inl e \<Rightarrow> except_upload file_to_upload e s5
                                     | Inr v \<Rightarrow> (Returned v, s5)))))
      | (Raised e, s1) \<Rightarrow> (Raised e, s1)
      | (Exited n, s1) \<Rightarrow> (Exited n, s1))"

definition create_label ::
  "world \<Rightarrow> string \<Rightarrow> string \<Rightarrow> effects \<Rightarrow> pyval result \<times> effects" where
  "create_label w label_name description s0 =
     (case get_access_token w (CLIENT_ID w) (CLIENT_SECRET w) s0 of
        (Returned access_token, s1) \<Rightarrow>
          if \<not> truthy access_token then
            (Exited 1, print (cross_mark @ '' Halting script: Could not obtain access token.'') s1)
          else
            (let hdrs = [(''Authorization'', ''Bearer '' @ format w access_token),
                         (''Accept'', ''application/json''),
                         (''Content-Type'', ''application/json'')];
                 json_payload = [(''name'', label_name), (''description'', description)];
                 s2 = print ([CHR 0x0A] @ ''Attempting to create label: '' @ label_name @ ''...'') s1
             in case send w \<lparr>meth = ''POST'', url = LABELS_API_URL, headers = hdrs,
                               payload = JsonBody json_payload\<rparr> s2 of
                  (Inl e, s3) \<Rightarrow> except_request e s3
                | (Inr response, s3) \<Rightarrow>
                    (case raise_for_status response of
                       Some e \<Rightarrow> except_request e s3
                     | None \<Rightarrow>
                         (let s4 = logger_info (''Successfully created label'') s3
                          in case resp_json response of
                               Inl e \<Rightarrow> except_request e s4
                             | Inr v \<Rightarrow> (Returned v, s4))))
      | (Raised e, s1) \<Rightarrow> (Raised e, s1)
      | (Exited n, s1) \<Rightarrow> (Exited n, s1))"

definition add_label_proof ::
  "world \<Rightarrow> string \<Rightarrow> string \<Rightarrow> string option \<Rightarrow> effects \<Rightarrow> pyval result \<times> effects" where
  "add_label_proof w label_id file_to_upload content_type s0 =
     (case get_access_token w (CLIENT_ID w) (CLIENT_SECRET w) s0 of
        (Returned access_token, s1) \<Rightarrow>
          if \<not> truthy access_token then
            (Exited 1, print (cross_mark @ '' Halting script: Could not obtain access token.'') s1)
          else
            (let hdrs = [(''Authorization'', ''Bearer '' @ format w access_token),
                         (''Accept'', ''application/json'')];
                 label_proof_url = LABELS_API_URL @ ''/'' @ label_id @ ''/proof'';
                 s2 = print (''URL: '' @ label_proof_url)
                        (print (''File: '' @ file_to_upload)
                           (print ([CHR 0x0A] @ ''Attempting to upload proof for label '' @ label_id @ ''...'') s1))
             in case open_rb w file_to_upload of
                  Inl e \<Rightarrow> except_upload file_to_upload e s2
                | Inr f \<Rightarrow>
                    (let files_payload = [(''proof'', if truthy_str content_type then
                                             \<lparr>part_filename = file_to_upload, part_content = f,
                                              part_type = content_type\<rparr>
                                           else
                                             \<lparr>part_filename = file_to_upload, part_content = f,
                                              part_type = None\<rparr>)]
                     in case send w \<lparr>meth = ''POST'', url = label_proof_url, headers = hdrs,
                                       payload = Multipart files_payload []\<rparr> s2 of
                          (Inl e, s4) \<Rightarrow> except_upload file_to_upload e s4
                        | (Inr response, s4) \<Rightarrow>
                            (case raise_for_status response of
                               Some e \<Rightarrow> except_upload file_to_upload e s4
                             | None \<Rightarrow>
                                 (let s5 = logger_info (''Successfully added proof to label '' @ label_id) s4
                                  in case resp_json response of
                                       Inl e \<Rightarrow> except_upload file_to_upload e s5
                                     | Inr v \<Rightarrow> (Returned v, s5)))))
      | (Raised e, s1) \<Rightarrow> (Raised e, s1)
      | (Exited n, s1) \<Rightarrow> (Exited n, s1))"

definition link_label_to_control ::
  "world \<Rightarrow> string \<Rightarrow> string \<Rightarrow> effects \<Rightarrow> pyval result \<times> effects" where
  "link_label_to_control w control_id label_id s0 =
     (case get_access_token w (CLIENT_ID w) (CLIENT_SECRET w) s0 of
        (Returned access_token, s1) \<Rightarrow>
          if \<not> truthy access_token then
            (Exited 1, print (cross_mark @ '' Halting script: Could not obtain access token.'') s1)
          else
            (let hdrs = [(''Authorization'', ''Bearer '' @ format w access_token),
                         (''Accept'', ''application/json'')];
                 link_url = CONTROLS_API_URL @ ''/'' @ control_id @ ''/labels/'' @ label_id;
                 s2 = print ([CHR 0x0A] @ ''Attempting to link label '' @ label_id
                               @ '' to control '' @ control_id @ ''...'') s1
             in case send w \<lparr>meth = ''POST'', url = link_url, headers = hdrs,
                               payload = NoBody\<rparr> s2 of
                  (Inl e, s3) \<Rightarrow> except_request e s3
                | (Inr response, s3) \<Rightarrow>
                    (case raise_for_status response of
                       Some e \<Rightarrow> except_request e s3
                     | None \<Rightarrow>
                         (Returned (PyBool True),
                          logger_info (''Successfully linked label to control '' @ control_id) s3)))
      | (Raised e, s1) \<Rightarrow> (Raised e, s1)
      | (Exited n, s1) \<Rightarrow> (Exited n, s1))"

section \<open>call\_hyperproof\_api.py\<close>

text \<open>
  The second script defines \<open>get_access_token\<close>, \<open>add_proof\<close>, \<open>add_proof_version\<close> and
  \<open>add_control_proof\<close> again, and its own constants; its names carry the suffix \<open>_cha\<close>.
  Its \<open>CONTROLS_API_URL\<close> ends in a slash.
\<close>

definition CONTROLS_API_URL_cha :: string where
  "CONTROLS_API_URL_cha = ''https://api.hyperproof.app/v1/controls/''"

definition PROOF_API_URL_cha :: string where
  "PROOF_API_URL_cha = ''https://api.hyperproof.app/v1/proof/''"

definition OAUTH_TOKEN_URL_cha :: string where
  "OAUTH_TOKEN_URL_cha = ''https://accounts.hyperproof.app/oauth/token''"

definition get_access_token_except_cha ::
  "exn \<Rightarrow> response option \<Rightarrow> effects \<Rightarrow> pyval result \<times> effects" where
  "get_access_token_except_cha e response s =
     (if isinstance_RequestException e then
        (Returned PyNone,
         print (cross_mark @ '' A network error occurred while getting token: '' @ str_exn e) s)
      else if isinstance_JSONDecodeError e then
        (let s1 = print (cross_mark @ '' Error: Failed to decode JSON response from token URL.'') s
         in case response of
              None \<Rightarrow>
                (Raised (UnboundLocalError ''cannot access local variable response''), s1)
            | Some r \<Rightarrow> (Returned PyNone, print (''Raw Response: '' @ resp_text r) s1))
      else (Raised e, s))"

definition get_access_token_cha ::
  "world \<Rightarrow> string option \<Rightarrow> string option \<Rightarrow> effects \<Rightarrow> pyval result \<times> effects" where
  "get_access_token_cha w client_id client_secret s0 =
     (let s1 = print (''Attempting to fetch access token from '' @ OAUTH_TOKEN_URL_cha @ ''...'') s0;
          data = [(''grant_type'', Some ''client_credentials''),
                  (''client_id'', client_id),
                  (''client_secret'', client_secret)];
          hdrs = [(''Content-Type'', ''application/x-www-form-urlencoded'')]
      in case send w \<lparr>meth = ''POST'', url = OAUTH_TOKEN_URL_cha, headers = hdrs,
                        payload = FormData data\<rparr> s1 of
           (Inl e, s2) \<Rightarrow> get_access_token_except_cha e None s2
         | (Inr response, s2) \<Rightarrow>
             if status_code response = 200 then
               (case resp_json response of
                  Inl e \<Rightarrow> get_access_token_except_cha e (Some response) s2
                | Inr token_data \<Rightarrow>
                    (case dict_get token_data ''access_token'' of
                       Inl e \<Rightarrow> get_access_token_except_cha e (Some response) s2
                     | Inr access_token \<Rightarrow>
                         if truthy access_token then
                           (Returned access_token,
                            print (check_mark @ '' Successfully obtained access token.'') s2)
                         else
                           (Returned PyNone,
                            print (''Response Body: '' @ resp_text response)
                              (print (cross_mark
                                 @ '' Error: 'access_token' not found in response from token URL.'')
                                 s2))))
             else (Returned PyNone, s2))"

text \<open>
  The length of a Python string is the number of its code points: in UTF-8, the number of
  bytes that are not continuation bytes (those from \<^verbatim>\<open>0x80\<close> to \<^verbatim>\<open>0xBF\<close>).
\<close>

definition code_points :: "string \<Rightarrow> nat" where
  "code_points s =
     length (filter (\<lambda>c. \<not> (128 \<le> (of_char c :: nat) \<and> (of_char c :: nat) < 192)) s)"

text \<open>\<^verbatim>\<open>len(v)\<close>: a number, a truth value and \<^verbatim>\<open>None\<close> have no length.\<close>

fun py_len :: "pyval \<Rightarrow> exn + int" where
  "py_len (PyStr s) = Inr (int (code_points s))"
| "py_len (PyList xs) = Inr (int (length xs))"
| "py_len (PyDict kvs) = Inr (int (length kvs))"
| "py_len v =
     Inl (TypeError (''object of type '' @ [CHR 0x27] @ type_name v @ [CHR 0x27] @ '' has no len()''))"

text \<open>
  The \<^verbatim>\<open>except\<close> clauses of \<open>fetch_hyperproof_controls\<close>; the last one catches every
  exception the first two let pass.
\<close>

definition fetch_hyperproof_controls_except ::
  "exn \<Rightarrow> response option \<Rightarrow> effects \<Rightarrow> pyval result \<times> effects" where
  "fetch_hyperproof_controls_except e response s =
     (if isinstance_RequestException e then
        (Returned PyNone, print (cross_mark @ '' A network error occurred: '' @ str_exn e) s)
      else if isinstance_JSONDecodeError e then
        (let s1 = print (cross_mark @ '' Error: Failed to decode JSON response from the server.'') s
         in case response of
              None \<Rightarrow>
                (Raised (UnboundLocalError ''cannot access local variable response''), s1)
            | Some r \<Rightarrow> (Returned PyNone, print (''Raw Response: '' @ resp_text r) s1))
      else
        (Returned PyNone, print (cross_mark @ '' An unexpected error occurred: '' @ str_exn e) s))"

text \<open>
  The branch of \<open>fetch_hyperproof_controls\<close> for status 200, after the body has been
  decoded: the data is printed, then its size when it is a list or a dictionary with the
  key \<^verbatim>\<open>data\<close>.
\<close>

definition print_controls ::
  "world \<Rightarrow> pyval \<Rightarrow> effects \<Rightarrow> (exn + unit) \<times> effects" where
  "print_controls w controls_data s =
     (let s1 = print (json_dumps w controls_data)
                 (print ''--- Controls Data ---''
                    (print (check_mark @ '' Success! Successfully fetched controls.'') s))
      in case controls_data of
           PyList xs \<Rightarrow>
             (Inr (), print ([CHR 0x0A] @ ''Found '' @ str_int (int (length xs)) @ '' controls.'') s1)
         | PyDict kvs \<Rightarrow>
             (case map_of kvs ''data'' of
                None \<Rightarrow> (Inr (), s1)
              | Some d \<Rightarrow>
                  (case py_len d of
                     Inl e \<Rightarrow> (Inl e, s1)
                   | Inr n \<Rightarrow>
                       (Inr (), print ([CHR 0x0A] @ ''Found '' @ str_int n
                                        @ '' controls on this page.'') s1)))
         | _ \<Rightarrow> (Inr (), s1))"

text \<open>
  The \<^verbatim>\<open>try\<close> block of \<open>fetch_hyperproof_controls\<close> with its \<^verbatim>\<open>except\<close> clauses: the GET
  request and the report of its outcome. No branch has a \<^verbatim>\<open>return\<close> statement, so the
  function returns \<^verbatim>\<open>None\<close> wherever it returns.
\<close>

definition fetch_hyperproof_controls_try ::
  "world \<Rightarrow> (string \<times> string) list \<Rightarrow> effects \<Rightarrow> pyval result \<times> effects" where
  "fetch_hyperproof_controls_try w hdrs s2 =
     (case send w \<lparr>meth = ''GET'', url = CONTROLS_API_URL_cha, headers = hdrs,
                     payload = NoBody\<rparr> s2 of
        (Inl e, s3) \<Rightarrow> fetch_hyperproof_controls_except e None s3
      | (Inr response, s3) \<Rightarrow>
          if status_code response = 200 then
            (case resp_json response of
               Inl e \<Rightarrow> fetch_hyperproof_controls_except e (Some response) s3
             | Inr controls_data \<Rightarrow>
                 (case print_controls w controls_data s3 of
                    (Inl e, s4) \<Rightarrow> fetch_hyperproof_controls_except e (Some response) s4
                  | (Inr u, s4) \<Rightarrow> (Returned PyNone, s4)))
          else
            (let s4 = print (''Response Body: '' @ resp_text response)
                        (print (cross_mark @ '' Error: API returned status code ''
                                  @ str_int (status_code response)) s3)
             in if status_code response = 401 \<or> status_code response = 403 then
                  (Returned PyNone,
                   print ''or the client credentials do not have permission for this API.''
                     (print ([CHR 0x0A] @ ''Hint: This often means your access token is invalid or expired,'')
                        s4))
                else (Returned PyNone, s4)))"

definition fetch_hyperproof_controls :: "world \<Rightarrow> effects \<Rightarrow> pyval result \<times> effects" where
  "fetch_hyperproof_controls w s0 =
     (if \<not> truthy_str (CLIENT_ID w) \<or> \<not> truthy_str (CLIENT_SECRET w) then
        (Exited 1,
         print ''-----------------------------------------------------------------''
           (print ([CHR 0x0A] @ ''Then run the script again.'')
              (print (''  CLIENT_SECRET='' @ [CHR 0x22] @ ''your_client_secret_here'' @ [CHR 0x22])
                 (print (''  CLIENT_ID='' @ [CHR 0x22] @ ''your_client_id_here'' @ [CHR 0x22])
                    (print ([CHR 0x0A] @ ''Please create a .env file in this directory with:'')
                       (print (''Error: 'CLIENT_ID' or 'CLIENT_SECRET' environment variable is not set.'')
                          (print ''-----------------------------------------------------------------''
                             s0)))))))
      else
        (case get_access_token_cha w (CLIENT_ID w) (CLIENT_SECRET w) s0 of
           (Returned access_token, s1) \<Rightarrow>
             if \<not> truthy access_token then
               (Exited 1,
                print (cross_mark @ '' Halting script: Could not obtain access token.'') s1)
             else
               (let hdrs = [(''Authorization'', ''Bearer '' @ format w access_token),
                            (''Content-Type'', ''application/json'')];
                    s2 = print ([CHR 0x0A] @ ''Attempting to fetch controls from ''
                                  @ CONTROLS_API_URL_cha @ ''...'') s1
                in fetch_hyperproof_controls_try w hdrs s2)
         | (Raised e, s1) \<Rightarrow> (Raised e, s1)
         | (Exited n, s1) \<Rightarrow> (Exited n, s1)))"

definition add_proof_cha ::
  "world \<Rightarrow> string \<Rightarrow> string option \<Rightarrow> string option \<Rightarrow> effects \<Rightarrow> pyval result \<times> effects" where
  "add_proof_cha w file_to_upload object_id object_type s0 =
     (case get_access_token_cha w (CLIENT_ID w) (CLIENT_SECRET w) s0 of
        (Returned access_token, s1) \<Rightarrow>
          if \<not> truthy access_token then
            (Exited 1, print (cross_mark @ '' Halting script: Could not obtain access token.'') s1)
          else
            (let hdrs = [(''Authorization'', ''Bearer '' @ format w access_token),
                         (''Accept'', ''application/json'')];
                 data = (if truthy_str object_id \<and> truthy_str object_type then
                           [(''objectId'', object_id), (''objectType'', object_type)]
                         else []);
                 s2 = print ([CHR 0x0A] @ ''Attempting to upload proof file: '' @ file_to_upload @ ''...'') s1
             in case open_rb w file_to_upload of
                  Inl e \<Rightarrow> except_upload file_to_upload e s2
                | Inr f \<Rightarrow>
                    (let s3 = print (''open '' @ file_to_upload @ '' ........'') s2;
                         files_payload = [(''proof'', \<lparr>part_filename = file_to_upload, part_content = f,
                                             part_type = Some ''application/json''\<rparr>)]
                     in case send w \<lparr>meth = ''POST'', url = PROOF_API_URL_cha, headers = hdrs,
                                       payload = Multipart files_payload data\<rparr> s3 of
                          (Inl e, s4) \<Rightarrow> except_upload file_to_upload e s4
                        | (Inr response, s4) \<Rightarrow>
                            (case raise_for_status response of
                               Some e \<Rightarrow> except_upload file_to_upload e s4
                             | None \<Rightarrow>
                                 (let s5 = logger_info (''Successfully added proof'') s4
                                  in case resp_json response of
                                       Inl e \<Rightarrow> except_upload file_to_upload e s5
                                     | Inr v \<Rightarrow> (Returned v, s5)))))
      | (Raised e, s1) \<Rightarrow> (Raised e, s1)
      | (Exited n, s1) \<Rightarrow> (Exited n, s1))"

definition add_proof_version_cha ::
  "world \<Rightarrow> string \<Rightarrow> string \<Rightarrow> string option \<Rightarrow> effects \<Rightarrow> pyval result \<times> effects" where
  "add_proof_version_cha w proof_id file_to_upload content_type s0 =
     (case get_access_token_cha w (CLIENT_ID w) (CLIENT_SECRET w) s0 of
        (Returned access_token, s1) \<Rightarrow>
          if \<not> truthy access_token then
            (Exited 1, print (cross_mark @ '' Halting script: Could not obtain access token.'') s1)
          else
            (let hdrs = [(''Authorization'', ''Bearer '' @ format w access_token),
                         (''Accept'', ''application/json'')];
                 version_url = PROOF_API_URL_cha @ ''/'' @ proof_id @ ''/versions'';
                 s2 = print (''URL: '' @ version_url)
                        (print (''File: '' @ file_to_upload)
                           (print ([CHR 0x0A] @ ''Attempting to upload new version for proof '' @ proof_id @ ''...'') s1))
             in case open_rb w file_to_upload of
                  Inl e \<Rightarrow> except_upload file_to_upload e s2
                | Inr f \<Rightarrow>
                    (let files_payload = [(''proof'', if truthy_str content_type then
                                             \<lparr>part_filename = file_to_upload, part_content = f,
                                              part_type = content_type\<rparr>
                                           else
                                             \<lparr>part_filename = file_to_upload, part_content = f,
                                              part_type = None\<rparr>)]
                     in case send w \<lparr>meth = ''POST'', url = version_url, headers = hdrs,
                                       payload = Multipart files_payload []\<rparr> s2 of
                          (Inl e, s4) \<Rightarrow> except_upload file_to_upload e s4
                        | (Inr response, s4) \<Rightarrow>
                            (case raise_for_status response of
                               Some e \<Rightarrow> except_upload file_to_upload e s4
                             | None \<Rightarrow>
                                 (let s5 = logger_info (''Successfully added new version for proof '' @ proof_id) s4
                                  in case resp_json response of
                                       Inl e \<Rightarrow> except_upload file_to_upload e s5
                                     | Inr v \<Rightarrow> (Returned v, s5)))))
      | (Raised e, s1) \<Rightarrow> (Raised e, s1)
      | (Exited n, s1) \<Rightarrow> (Exited n, s1))"

definition add_control_proof_cha ::
  "world \<Rightarrow> string \<Rightarrow> string \<Rightarrow> string option \<Rightarrow> effects \<Rightarrow> pyval result \<times> effects" where
  "add_control_proof_cha w control_id file_to_upload content_type s0 =
     (case get_access_token_cha w (CLIENT_ID w) (CLIENT_SECRET w) s0 of
        (Returned access_token, s1) \<Rightarrow>
          if \<not> truthy access_token then
            (Exited 1, print (cross_mark @ '' Halting script: Could not obtain access token.'') s1)
          else
            (let hdrs = [(''Authorization'', ''Bearer '' @ format w access_token),
                         (''Accept'', ''application/json'')];
                 control_proof_url = CONTROLS_API_URL_cha @ ''/'' @ control_id @ ''/proof'';
                 s2 = print (''URL: '' @ control_proof_url)
                        (print (''File: '' @ file_to_upload)
                           (print ([CHR 0x0A] @ ''Attempting to upload proof for control '' @ control_id @ ''...'') s1))
             in case open_rb w file_to_upload of
                  Inl e \<Rightarrow> except_upload file_to_upload e s2
                | Inr f \<Rightarrow>
                    (let files_payload = [(''proof'', if truthy_str content_type then
                                             \<lparr>part_filename = file_to_upload, part_content = f,
                                              part_type = content_type\<rparr>
                                           else
                                             \<lparr>part_filename = file_to_upload, part_content = f,
                                              part_type = None\<rparr>)]
                     in case send w \<lparr>meth = ''POST'', url = control_proof_url, headers = hdrs,
                                       payload = Multipart files_payload []\<rparr> s2 of
                          (Inl e, s4) \<Rightarrow> except_upload file_to_upload e s4
                        | (Inr response, s4) \<Rightarrow>
                            (case raise_for_status response of
                               Some e \<Rightarrow> except_upload file_to_upload e s4
                             | None \<Rightarrow>
                                 (let s5 = logger_info (''Successfully added proof to control '' @ control_id) s4
                                  in case resp_json response of
                                       Inl e \<Rightarrow> except_upload file_to_upload e s5
                                     | Inr v \<Rightarrow> (Returned v, s5)))))
      | (Raised e, s1) \<Rightarrow> (Raised e, s1)
      | (Exited n, s1) \<Rightarrow> (Exited n, s1))"

section \<open>Notions used in the properties\<close>

text \<open>
  The request that \<open>get_access_token\<close> sends, and the requests a function has sent after
  those of token acquisition, whose effects are \<open>s1\<close>.
\<close>

definition token_request :: "string option \<Rightarrow> string option \<Rightarrow> request" where
  "token_request client_id client_secret =
     \<lparr>meth = ''POST'', url = OAUTH_TOKEN_URL,
      headers = [(''Content-Type'', ''application/x-www-form-urlencoded'')],
      payload = FormData [(''grant_type'', Some ''client_credentials''),
                          (''client_id'', client_id),
                          (''client_secret'', client_secret)]\<rparr>"

definition action_requests :: "effects \<Rightarrow> pyval result \<times> effects \<Rightarrow> request list" where
  "action_requests s1 out = drop (length (sent s1)) (sent (snd out))"

text \<open>
  What can fail in the action of a function: the file cannot be opened; the HTTP call raises
  or is answered with a 4xx or 5xx status; the body of the response does not decode. For a
  function that has sent its action request, that request is the last one sent.
\<close>

definition file_missing :: "world \<Rightarrow> string \<Rightarrow> bool" where
  "file_missing w p = (case open_rb w p of Inl _ \<Rightarrow> True | Inr _ \<Rightarrow> False)"

definition request_failed :: "world \<Rightarrow> request \<Rightarrow> bool" where
  "request_failed w req =
     (case http w req of Inl _ \<Rightarrow> True | Inr r \<Rightarrow> 400 \<le> status_code r \<and> status_code r < 600)"

definition decode_failed :: "world \<Rightarrow> request \<Rightarrow> bool" where
  "decode_failed w req =
     (case http w req of Inl _ \<Rightarrow> False
      | Inr r \<Rightarrow> (case resp_json r of Inl _ \<Rightarrow> True | Inr _ \<Rightarrow> False))"

definition upload_failed :: "world \<Rightarrow> string \<Rightarrow> effects \<Rightarrow> bool" where
  "upload_failed w p s =
     (file_missing w p \<or> request_failed w (last (sent s)) \<or> decode_failed w (last (sent s)))"

text \<open>
  How a function ends. \<open>halted\<close>: the process exits with status 1 and nothing was sent
  after token acquisition. \<open>error_logged\<close>: the last log record is an error. The three
  \<open>\<dots>_caught\<close>: the function returns, and returns \<^verbatim>\<open>None\<close> with an error logged if its action
  failed; \<open>link_label_to_control\<close> decodes no body, so only its request can fail.
\<close>

definition halted :: "effects \<Rightarrow> pyval result \<times> effects \<Rightarrow> bool" where
  "halted s1 out = (fst out = Exited 1 \<and> sent (snd out) = sent s1)"

definition error_logged :: "effects \<Rightarrow> bool" where
  "error_logged s = (logged s \<noteq> [] \<and> fst (last (logged s)) = ERROR)"

definition upload_failure_caught :: "world \<Rightarrow> string \<Rightarrow> pyval result \<times> effects \<Rightarrow> bool" where
  "upload_failure_caught w p out =
     (case fst out of
        Returned v \<Rightarrow> upload_failed w p (snd out) \<longrightarrow> v = PyNone \<and> error_logged (snd out)
      | _ \<Rightarrow> False)"

definition create_failure_caught :: "world \<Rightarrow> pyval result \<times> effects \<Rightarrow> bool" where
  "create_failure_caught w out =
     (case fst out of
        Returned v \<Rightarrow>
          request_failed w (last (sent (snd out))) \<or> decode_failed w (last (sent (snd out)))
            \<longrightarrow> v = PyNone \<and> error_logged (snd out)
      | _ \<Rightarrow> False)"

definition link_failure_caught :: "world \<Rightarrow> pyval result \<times> effects \<Rightarrow> bool" where
  "link_failure_caught w out =
     (case fst out of
        Returned v \<Rightarrow>
          request_failed w (last (sent (snd out))) \<longrightarrow> v = PyNone \<and> error_logged (snd out)
      | _ \<Rightarrow> False)"

text \<open>
  What a request looks like: its \<^verbatim>\<open>Content-Type\<close> header if it has one, whether it is multipart,
  the content types of its file parts, its form fields.
\<close>

definition content_type_header :: "request \<Rightarrow> string option" where
  "content_type_header req = map_of (headers req) ''Content-Type''"

definition is_multipart :: "request \<Rightarrow> bool" where
  "is_multipart req = (case payload req of Multipart files form \<Rightarrow> True | _ \<Rightarrow> False)"

definition part_types :: "request \<Rightarrow> string option list" where
  "part_types req =
     (case payload req of Multipart files form \<Rightarrow> map (\<lambda>(k, p). part_type p) files | _ \<Rightarrow> [])"

definition form_fields :: "request \<Rightarrow> (string \<times> string option) list" where
  "form_fields req =
     (case payload req of Multipart files form \<Rightarrow> form | FormData form \<Rightarrow> form | _ \<Rightarrow> [])"

definition upload_sent ::
  "effects \<Rightarrow> pyval result \<times> effects \<Rightarrow> (string option \<times> bool \<times> string option list) list" where
  "upload_sent s1 out =
     map (\<lambda>req. (content_type_header req, is_multipart req, part_types req))
       (action_requests s1 out)"







text \<open>
  The statements that the upload functions and \<open>create_label\<close> share after the request is
  built: send it, raise for an error status, log the success, decode the body, with the
  function's \<^verbatim>\<open>except\<close> clauses as \<open>handler\<close>. Each function is shown below to run
  exactly this (lemmas \<open>\<dots>_run\<close>), so that what holds of it holds of them all.
\<close>

definition post_and_decode ::
  "world \<Rightarrow> (exn \<Rightarrow> effects \<Rightarrow> pyval result \<times> effects) \<Rightarrow> request \<Rightarrow> string \<Rightarrow> effects
     \<Rightarrow> pyval result \<times> effects" where
  "post_and_decode w handler req info s =
     (case send w req s of
        (Inl e, s4) \<Rightarrow> handler e s4
      | (Inr response, s4) \<Rightarrow>
          (case raise_for_status response of
             Some e \<Rightarrow> handler e s4
           | None \<Rightarrow>
               (let s5 = logger_info info s4
                in case resp_json response of
                     Inl e \<Rightarrow> handler e s5
                   | Inr v \<Rightarrow> (Returned v, s5))))"

section \<open>Worlds to run the functions in\<close>

text \<open>
  Some responses, a network that answers the token URL with one response and every other
  URL with another, and a world with both credentials set and one file,
  \<^verbatim>\<open>evidence.json\<close>.
\<close>

definition token_ok :: response where
  "token_ok =
     \<lparr>status_code = 200, reason = ''OK'', resp_url = OAUTH_TOKEN_URL,
      resp_text = ''{'' @ [CHR 0x22] @ ''access_token'' @ [CHR 0x22] @ '': ''
                    @ [CHR 0x22] @ ''tok'' @ [CHR 0x22] @ ''}'',
      resp_json = Inr (PyDict [(''access_token'', PyStr ''tok'')])\<rparr>"

definition unauthorized :: response where
  "unauthorized =
     \<lparr>status_code = 401, reason = ''Unauthorized'', resp_url = OAUTH_TOKEN_URL,
      resp_text = ''Unauthorized'',
      resp_json = Inl (JSONDecodeError True ''Expecting value: line 1 column 1 (char 0)'')\<rparr>"

definition server_error :: response where
  "server_error =
     \<lparr>status_code = 500, reason = ''Internal Server Error'', resp_url = OAUTH_TOKEN_URL,
      resp_text = ''Internal Server Error'',
      resp_json = Inl (JSONDecodeError True ''Expecting value: line 1 column 1 (char 0)'')\<rparr>"

definition not_found :: response where
  "not_found =
     \<lparr>status_code = 404, reason = ''Not Found'', resp_url = [],
      resp_text = ''Not Found'',
      resp_json = Inl (JSONDecodeError True ''Expecting value: line 1 column 1 (char 0)'')\<rparr>"

definition not_modified :: response where
  "not_modified =
     \<lparr>status_code = 304, reason = ''Not Modified'', resp_url = [],
      resp_text = [],
      resp_json = Inl (JSONDecodeError True ''Expecting value: line 1 column 1 (char 0)'')\<rparr>"

definition created :: response where
  "created =
     \<lparr>status_code = 201, reason = ''Created'', resp_url = [],
      resp_text = ''{'' @ [CHR 0x22] @ ''id'' @ [CHR 0x22] @ '': ''
                    @ [CHR 0x22] @ ''P1'' @ [CHR 0x22] @ ''}'',
      resp_json = Inr (PyDict [(''id'', PyStr ''P1'')])\<rparr>"

definition controls_page :: response where
  "controls_page =
     \<lparr>status_code = 200, reason = ''OK'', resp_url = [],
      resp_text = ''{'' @ [CHR 0x22] @ ''data'' @ [CHR 0x22] @ '': [{'' @ [CHR 0x22] @ ''id''
                    @ [CHR 0x22] @ '': '' @ [CHR 0x22] @ ''C1'' @ [CHR 0x22] @ ''}]}'',
      resp_json = Inr (PyDict [(''data'', PyList [PyDict [(''id'', PyStr ''C1'')]])])\<rparr>"

definition answer :: "response \<Rightarrow> response \<Rightarrow> request \<Rightarrow> net_error + response" where
  "answer token_response action_response req =
     (if url req = OAUTH_TOKEN_URL then Inr token_response
      else Inr (action_response\<lparr>resp_url := url req\<rparr>))"

definition example_world :: "(request \<Rightarrow> net_error + response) \<Rightarrow> world" where
  "example_world net =
     \<lparr>CLIENT_ID = Some ''id'', CLIENT_SECRET = Some ''secret'', http = net,
      open_rb = (\<lambda>p. if p = ''evidence.json'' then Inr ''{}''
                     else Inl (FileNotFoundError ''No such file or directory'')),
      py_format = (\<lambda>v. ''<value>''), json_dumps = (\<lambda>v. ''<json>'')\<rparr>"

definition without_credentials :: "world \<Rightarrow> world" where
  "without_credentials w = w\<lparr>CLIENT_ID := None, CLIENT_SECRET := None\<rparr>"

section \<open>Properties of the building blocks\<close>

text \<open>
  The defining equations by which a function is run on a given world.
\<close>

lemmas world_defs = example_world_def answer_def token_ok_def server_error_def not_found_def
  not_modified_def created_def controls_page_def unauthorized_def without_credentials_def no_effects_def

lemmas run_defs = fetch_hyperproof_controls_try_def get_access_token_def get_access_token_except_def
  get_access_token_cha_def get_access_token_except_cha_def send_def print_def
  logger_info_def logger_error_def except_upload_def except_request_def
  OAUTH_TOKEN_URL_def OAUTH_TOKEN_URL_cha_def PROOF_API_URL_def PROOF_API_URL_cha_def
  CONTROLS_API_URL_def CONTROLS_API_URL_cha_def LABELS_API_URL_def Let_def

lemmas prop_defs = upload_failed_def file_missing_def request_failed_def decode_failed_def
  error_logged_def halted_def upload_failure_caught_def create_failure_caught_def
  link_failure_caught_def

lemmas request_defs = upload_sent_def content_type_header_def is_multipart_def part_types_def
  form_fields_def

subsection \<open>The status check and the except clauses\<close>

lemma raise_for_status_None:
  "(raise_for_status r = None) = (\<not> (400 \<le> status_code r \<and> status_code r < 600))"
  by (auto simp: raise_for_status_def)

lemma raise_for_status_Some:
  "raise_for_status r = Some e \<Longrightarrow> 400 \<le> status_code r \<and> status_code r < 600"
  by (auto simp: raise_for_status_def split: if_splits)

lemma except_upload_caught:
  "fst (except_upload p e s) = Returned PyNone"
  "error_logged (snd (except_upload p e s))"
  "sent (snd (except_upload p e s)) = sent s"
  by (simp_all add: except_upload_def error_logged_def logger_error_def)

lemma except_request_caught:
  "fst (except_request e s) = Returned PyNone"
  "error_logged (snd (except_request e s))"
  "sent (snd (except_request e s)) = sent s"
  by (simp_all add: except_request_def error_logged_def logger_error_def)

subsection \<open>Token acquisition\<close>

text \<open>
  \<open>get_access_token\<close> sends exactly its one request, writes no log record and never ends
  the process. Its result, case by case: an exception of the HTTP call that is no
  \<open>RequestException\<close>, an exception of \<^verbatim>\<open>response.json()\<close> of neither class caught, and the
  \<open>AttributeError\<close> of a body that is no dictionary leave the function; a status other than
  200 gives \<^verbatim>\<open>None\<close> with nothing printed after the announcement.
\<close>

lemma get_access_token_sent:
  "sent (snd (get_access_token w i c s)) = sent s @ [token_request i c]"
  by (auto simp: get_access_token_def get_access_token_except_def send_def print_def
       token_request_def Let_def split: sum.splits option.splits if_splits)


lemma get_access_token_not_exited:
  "fst (get_access_token w i c s) \<noteq> Exited n"
  by (auto simp: get_access_token_def get_access_token_except_def send_def print_def
       Let_def split: sum.splits option.splits if_splits)

lemma get_access_token_outcome:
  "fst (get_access_token w i c s) =
     (case http w (token_request i c) of
        Inl (Transport m) \<Rightarrow> Returned PyNone
      | Inl (Unexpected m) \<Rightarrow> Raised (OtherException m)
      | Inr r \<Rightarrow>
          if status_code r = 200 then
            (case resp_json r of
               Inl e \<Rightarrow>
                 if isinstance_RequestException e \<or> isinstance_JSONDecodeError e
                 then Returned PyNone else Raised e
             | Inr d \<Rightarrow>
                 (case dict_get d ''access_token'' of
                    Inl e \<Rightarrow> Raised e
                  | Inr v \<Rightarrow> if truthy v then Returned v else Returned PyNone))
          else Returned PyNone)"
proof -
  have dg: "\<And>d e. dict_get d ''access_token'' = Inl e \<Longrightarrow>
              \<not> isinstance_RequestException e \<and> \<not> isinstance_JSONDecodeError e"
    by (case_tac d) auto
  show ?thesis
    by (auto simp add: get_access_token_def get_access_token_except_def send_def
          token_request_def Let_def dest: dg
          split: sum.splits net_error.splits)
qed

lemma get_access_token_non_200:
  assumes "http w (token_request i c) = Inr r" and "status_code r \<noteq> 200"
  shows "get_access_token w i c s =
           (Returned PyNone,
            (print (''Attempting to fetch access token from '' @ OAUTH_TOKEN_URL @ ''...'') s)
              \<lparr>sent := sent s @ [token_request i c]\<rparr>)"
  using assms
  by (simp add: get_access_token_def send_def token_request_def print_def)

subsection \<open>The copies in the two scripts\<close>

text \<open>
  Three of the four functions that both scripts define are equal; \<open>add_control_proof\<close>
  is not, since the two \<^verbatim>\<open>CONTROLS_API_URL\<close> differ.
\<close>

lemma get_access_token_except_cha_eq: "get_access_token_except_cha = get_access_token_except"
  by (simp add: fun_eq_iff get_access_token_except_cha_def get_access_token_except_def)

lemma url_cha_eq: "OAUTH_TOKEN_URL_cha = OAUTH_TOKEN_URL" "PROOF_API_URL_cha = PROOF_API_URL"
  by (simp_all add: OAUTH_TOKEN_URL_cha_def OAUTH_TOKEN_URL_def PROOF_API_URL_cha_def
        PROOF_API_URL_def)

lemma get_access_token_cha_eq: "get_access_token_cha = get_access_token"
  unfolding fun_eq_iff get_access_token_cha_def get_access_token_def
    get_access_token_except_cha_eq url_cha_eq
  by (rule allI | rule refl)+

lemma add_proof_cha_eq: "add_proof_cha = add_proof"
  unfolding fun_eq_iff add_proof_cha_def add_proof_def get_access_token_cha_eq url_cha_eq
  by (rule allI | rule refl)+

lemma add_proof_version_cha_eq: "add_proof_version_cha = add_proof_version"
  unfolding fun_eq_iff add_proof_version_cha_def add_proof_version_def get_access_token_cha_eq
    url_cha_eq
  by (rule allI | rule refl)+

subsection \<open>Sending a request and decoding the response\<close>

lemma post_and_decode_sent:
  assumes "\<And>e s. sent (snd (handler e s)) = sent s"
  shows "sent (snd (post_and_decode w handler req info s)) = sent s @ [req]"
  by (auto simp add: post_and_decode_def send_def logger_info_def assms Let_def
        split: sum.splits option.splits)

lemma post_and_decode_returns:
  assumes "\<And>e s. fst (handler e s) = Returned PyNone"
  shows "\<exists>v. fst (post_and_decode w handler req info s) = Returned v"
  by (auto simp add: post_and_decode_def send_def assms Let_def
        split: sum.splits option.splits)

lemma post_and_decode_failed:
  assumes "\<And>e s. fst (handler e s) = Returned PyNone"
    and "\<And>e s. error_logged (snd (handler e s))"
    and "request_failed w req \<or> decode_failed w req"
  shows "fst (post_and_decode w handler req info s) = Returned PyNone
         \<and> error_logged (snd (post_and_decode w handler req info s))"
  using assms(3)
  by (auto simp add: post_and_decode_def send_def request_failed_def decode_failed_def
        raise_for_status_None assms(1,2) Let_def split: sum.splits option.splits)

lemma post_and_decode_ok:
  assumes "http w req = Inr r" and "\<not> (400 \<le> status_code r \<and> status_code r < 600)"
    and "resp_json r = Inr v"
  shows "fst (post_and_decode w handler req info s) = Returned v"
proof -
  have "raise_for_status r = None"
    using assms(2) by (simp add: raise_for_status_None)
  then show ?thesis
    by (simp add: post_and_decode_def send_def assms(1,3))
qed

subsection \<open>What each function runs\<close>

text \<open>
  With a token \<open>t\<close> obtained, each upload function opens the file and runs
  \<open>post_and_decode\<close> on its request; with a value that fails the truth test, it exits.
\<close>

lemma add_proof_run:
  assumes "get_access_token w (CLIENT_ID w) (CLIENT_SECRET w) s0 = (Returned t, s1)" and "truthy t"
  shows "\<exists>s2 s3. add_proof w p oi ot s0 =
           (case open_rb w p of
              Inl e \<Rightarrow> except_upload p e s2
            | Inr f \<Rightarrow>
                post_and_decode w (except_upload p)
                  \<lparr>meth = ''POST'', url = PROOF_API_URL,
                   headers = [(''Authorization'', ''Bearer '' @ format w t),
                              (''Accept'', ''application/json'')],
                   payload = Multipart
                     [(''proof'', \<lparr>part_filename = p, part_content = f,
                                  part_type = Some ''application/json''\<rparr>)]
                     (if truthy_str oi \<and> truthy_str ot then
                        [(''objectId'', oi), (''objectType'', ot)]
                      else [])\<rparr>
                  ''Successfully added proof'' s3)
           \<and> sent s2 = sent s1 \<and> logged s2 = logged s1
           \<and> sent s3 = sent s1 \<and> logged s3 = logged s1"
  unfolding add_proof_def post_and_decode_def Let_def assms(1)
  apply (simp only: prod.case result.case assms(2) not_True_eq_False if_False)
  apply (rule exI, rule exI, rule conjI, rule refl)
  apply (simp add: print_def)
  done

lemma add_proof_fatal:
  assumes "get_access_token w (CLIENT_ID w) (CLIENT_SECRET w) s0 = (Returned t, s1)" and "\<not> truthy t"
  shows "fst (add_proof w p oi ot s0) = Exited 1 \<and> sent (snd (add_proof w p oi ot s0)) = sent s1"
  using assms by (simp add: add_proof_def print_def)

lemma add_proof_version_run:
  assumes "get_access_token w (CLIENT_ID w) (CLIENT_SECRET w) s0 = (Returned t, s1)" and "truthy t"
  shows "\<exists>s2. add_proof_version w i p c s0 =
           (case open_rb w p of
              Inl e \<Rightarrow> except_upload p e s2
            | Inr f \<Rightarrow>
                post_and_decode w (except_upload p)
                  \<lparr>meth = ''POST'', url = PROOF_API_URL @ ''/'' @ i @ ''/versions'',
                   headers = [(''Authorization'', ''Bearer '' @ format w t),
                              (''Accept'', ''application/json'')],
                   payload = Multipart
                     [(''proof'', if truthy_str c then
                                   \<lparr>part_filename = p, part_content = f, part_type = c\<rparr>
                                 else
                                   \<lparr>part_filename = p, part_content = f, part_type = None\<rparr>)] []\<rparr>
                  (''Successfully added new version for proof '' @ i) s2) \<and> sent s2 = sent s1 \<and> logged s2 = logged s1"
  unfolding add_proof_version_def post_and_decode_def Let_def assms(1)
  apply (simp only: prod.case result.case assms(2) not_True_eq_False if_False)
  apply (rule exI, rule conjI, rule refl)
  apply (simp add: print_def)
  done

lemma add_proof_version_fatal:
  assumes "get_access_token w (CLIENT_ID w) (CLIENT_SECRET w) s0 = (Returned t, s1)" and "\<not> truthy t"
  shows "fst (add_proof_version w i p c s0) = Exited 1 \<and> sent (snd (add_proof_version w i p c s0)) = sent s1"
  using assms by (simp add: add_proof_version_def print_def)

lemma add_control_proof_run:
  assumes "get_access_token w (CLIENT_ID w) (CLIENT_SECRET w) s0 = (Returned t, s1)" and "truthy t"
  shows "\<exists>s2. add_control_proof w i p c s0 =
           (case open_rb w p of
              Inl e \<Rightarrow> except_upload p e s2
            | Inr f \<Rightarrow>
                post_and_decode w (except_upload p)
                  \<lparr>meth = ''POST'', url = CONTROLS_API_URL @ ''/'' @ i @ ''/proof'',
                   headers = [(''Authorization'', ''Bearer '' @ format w t),
                              (''Accept'', ''application/json'')],
                   payload = Multipart
                     [(''proof'', if truthy_str c then
                                   \<lparr>part_filename = p, part_content = f, part_type = c\<rparr>
                                 else
                                   \<lparr>part_filename = p, part_content = f, part_type = None\<rparr>)] []\<rparr>
                  (''Successfully added proof to control '' @ i) s2) \<and> sent s2 = sent s1 \<and> logged s2 = logged s1"
  unfolding add_control_proof_def post_and_decode_def Let_def assms(1)
  apply (simp only: prod.case result.case assms(2) not_True_eq_False if_False)
  apply (rule exI, rule conjI, rule refl)
  apply (simp add: print_def)
  done

lemma add_control_proof_fatal:
  assumes "get_access_token w (CLIENT_ID w) (CLIENT_SECRET w) s0 = (Returned t, s1)" and "\<not> truthy t"
  shows "fst (add_control_proof w i p c s0) = Exited 1 \<and> sent (snd (add_control_proof w i p c s0)) = sent s1"
  using assms by (simp add: add_control_proof_def print_def)

lemma create_label_run:
  assumes "get_access_token w (CLIENT_ID w) (CLIENT_SECRET w) s0 = (Returned t, s1)" and "truthy t"
  shows "\<exists>s2. create_label w n d s0 =
           post_and_decode w except_request
             \<lparr>meth = ''POST'', url = LABELS_API_URL,
              headers = [(''Authorization'', ''Bearer '' @ format w t),
                         (''Accept'', ''application/json''),
                         (''Content-Type'', ''application/json'')],
              payload = JsonBody [(''name'', n), (''description'', d)]\<rparr>
             ''Successfully created label'' s2
           \<and> sent s2 = sent s1 \<and> logged s2 = logged s1"
  unfolding create_label_def post_and_decode_def Let_def assms(1)
  apply (simp only: prod.case result.case assms(2) not_True_eq_False if_False)
  apply (rule exI, rule conjI, rule refl)
  apply (simp add: print_def)
  done

lemma create_label_fatal:
  assumes "get_access_token w (CLIENT_ID w) (CLIENT_SECRET w) s0 = (Returned t, s1)" and "\<not> truthy t"
  shows "fst (create_label w n d s0) = Exited 1 \<and> sent (snd (create_label w n d s0)) = sent s1"
  using assms by (simp add: create_label_def print_def)

lemma add_label_proof_run:
  assumes "get_access_token w (CLIENT_ID w) (CLIENT_SECRET w) s0 = (Returned t, s1)" and "truthy t"
  shows "\<exists>s2. add_label_proof w i p c s0 =
           (case open_rb w p of
              Inl e \<Rightarrow> except_upload p e s2
            | Inr f \<Rightarrow>
                post_and_decode w (except_upload p)
                  \<lparr>meth = ''POST'', url = LABELS_API_URL @ ''/'' @ i @ ''/proof'',
                   headers = [(''Authorization'', ''Bearer '' @ format w t),
                              (''Accept'', ''application/json'')],
                   payload = Multipart
                     [(''proof'', if truthy_str c then
                                   \<lparr>part_filename = p, part_content = f, part_type = c\<rparr>
                                 else
                                   \<lparr>part_filename = p, part_content = f, part_type = None\<rparr>)] []\<rparr>
                  (''Successfully added proof to label '' @ i) s2) \<and> sent s2 = sent s1 \<and> logged s2 = logged s1"
  unfolding add_label_proof_def post_and_decode_def Let_def assms(1)
  apply (simp only: prod.case result.case assms(2) not_True_eq_False if_False)
  apply (rule exI, rule conjI, rule refl)
  apply (simp add: print_def)
  done

lemma add_label_proof_fatal:
  assumes "get_access_token w (CLIENT_ID w) (CLIENT_SECRET w) s0 = (Returned t, s1)" and "\<not> truthy t"
  shows "fst (add_label_proof w i p c s0) = Exited 1 \<and> sent (snd (add_label_proof w i p c s0)) = sent s1"
  using assms by (simp add: add_label_proof_def print_def)

lemma link_label_to_control_run:
  assumes "get_access_token w (CLIENT_ID w) (CLIENT_SECRET w) s0 = (Returned t, s1)" and "truthy t"
  shows "sent (snd (link_label_to_control w ci li s0)) =
           sent s1 @ [\<lparr>meth = ''POST'',
                       url = CONTROLS_API_URL @ ''/'' @ ci @ ''/labels/'' @ li,
                       headers = [(''Authorization'', ''Bearer '' @ format w t),
                                  (''Accept'', ''application/json'')],
                       payload = NoBody\<rparr>]"
    and "fst (link_label_to_control w ci li s0) =
           Returned (if request_failed w (last (sent (snd (link_label_to_control w ci li s0))))
                     then PyNone else PyBool True)"
    and "request_failed w (last (sent (snd (link_label_to_control w ci li s0))))
           \<Longrightarrow> error_logged (snd (link_label_to_control w ci li s0))"
  using assms
  by (auto simp add: link_label_to_control_def Let_def send_def print_def request_failed_def
        raise_for_status_None except_request_caught logger_info_def
        dest: raise_for_status_Some split: sum.splits option.splits)

lemma link_label_to_control_fatal:
  assumes "get_access_token w (CLIENT_ID w) (CLIENT_SECRET w) s0 = (Returned t, s1)" and "\<not> truthy t"
  shows "fst (link_label_to_control w ci li s0) = Exited 1 \<and> sent (snd (link_label_to_control w ci li s0)) = sent s1"
  using assms by (simp add: link_label_to_control_def print_def)

lemma add_control_proof_cha_run:
  assumes "get_access_token_cha w (CLIENT_ID w) (CLIENT_SECRET w) s0 = (Returned t, s1)" and "truthy t"
  shows "\<exists>s2. add_control_proof_cha w i p c s0 =
           (case open_rb w p of
              Inl e \<Rightarrow> except_upload p e s2
            | Inr f \<Rightarrow>
                post_and_decode w (except_upload p)
                  \<lparr>meth = ''POST'', url = CONTROLS_API_URL_cha @ ''/'' @ i @ ''/proof'',
                   headers = [(''Authorization'', ''Bearer '' @ format w t),
                              (''Accept'', ''application/json'')],
                   payload = Multipart
                     [(''proof'', if truthy_str c then
                                   \<lparr>part_filename = p, part_content = f, part_type = c\<rparr>
                                 else
                                   \<lparr>part_filename = p, part_content = f, part_type = None\<rparr>)] []\<rparr>
                  (''Successfully added proof to control '' @ i) s2) \<and> sent s2 = sent s1 \<and> logged s2 = logged s1"
  unfolding add_control_proof_cha_def post_and_decode_def Let_def assms(1)
  apply (simp only: prod.case result.case assms(2) not_True_eq_False if_False)
  apply (rule exI, rule conjI, rule refl)
  apply (simp add: print_def)
  done

lemma add_control_proof_cha_fatal:
  assumes "get_access_token_cha w (CLIENT_ID w) (CLIENT_SECRET w) s0 = (Returned t, s1)" and "\<not> truthy t"
  shows "fst (add_control_proof_cha w i p c s0) = Exited 1 \<and> sent (snd (add_control_proof_cha w i p c s0)) = sent s1"
  using assms by (simp add: add_control_proof_cha_def print_def)

subsection \<open>Failures are caught; the request sent; the value returned\<close>

lemma upload_shape_caught:
  assumes "out = (case open_rb w p of
                    Inl e \<Rightarrow> except_upload p e s2
                  | Inr f \<Rightarrow> post_and_decode w (except_upload p) (req f) info s3)"
  shows "upload_failure_caught w p out"
proof (cases "open_rb w p")
  case (Inl e)
  then have "out = except_upload p e s2"
    using assms by simp
  then show ?thesis
    by (simp add: upload_failure_caught_def except_upload_caught)
next
  case (Inr f)
  then have out: "out = post_and_decode w (except_upload p) (req f) info s3"
    using assms by simp
  obtain v where v: "fst out = Returned v"
    using post_and_decode_returns [of "except_upload p" w "req f" info s3] out
    by (auto simp: except_upload_caught)
  have last: "last (sent (snd out)) = req f"
    by (simp add: out post_and_decode_sent except_upload_caught)
  have "v = PyNone \<and> error_logged (snd out)" if "upload_failed w p (snd out)"
  proof -
    from that have "request_failed w (req f) \<or> decode_failed w (req f)"
      by (simp add: upload_failed_def file_missing_def Inr last)
    then show ?thesis
      using post_and_decode_failed [of "except_upload p" w "req f" info s3] v out
      by (simp add: except_upload_caught)
  qed
  then show ?thesis
    by (simp add: upload_failure_caught_def v)
qed

lemma upload_shape_requests:
  assumes "out = (case open_rb w p of
                    Inl e \<Rightarrow> except_upload p e s2
                  | Inr f \<Rightarrow> post_and_decode w (except_upload p) (req f) info s3)"
    and "open_rb w p = Inr f" and "sent s3 = sent s1"
  shows "action_requests s1 out = [req f]"
  using assms
  by (simp add: action_requests_def post_and_decode_sent except_upload_caught)

lemma upload_shape_ok:
  assumes "out = (case open_rb w p of
                    Inl e \<Rightarrow> except_upload p e s2
                  | Inr f \<Rightarrow> post_and_decode w (except_upload p) (req f) info s3)"
    and "open_rb w p = Inr f" and "http w (req f) = Inr r"
    and "\<not> (400 \<le> status_code r \<and> status_code r < 600)" and "resp_json r = Inr v"
  shows "fst out = Returned v"
  using assms by (simp add: post_and_decode_ok)

lemma create_label_caught:
  assumes "get_access_token w (CLIENT_ID w) (CLIENT_SECRET w) s0 = (Returned t, s1)" and "truthy t"
  shows "create_failure_caught w (create_label w n d s0)"
proof -
  from create_label_run [OF assms, of n d] obtain s2 req where
    out: "create_label w n d s0 = post_and_decode w except_request req ''Successfully created label'' s2"
    by blast
  obtain v where v: "fst (create_label w n d s0) = Returned v"
    using post_and_decode_returns [of except_request w req _ s2] out
    by (auto simp: except_request_caught)
  have last: "last (sent (snd (create_label w n d s0))) = req"
    by (simp add: out post_and_decode_sent except_request_caught)
  have "v = PyNone \<and> error_logged (snd (create_label w n d s0))"
    if "request_failed w req \<or> decode_failed w req"
    using post_and_decode_failed [of except_request w req _ s2] that v out
    by (simp add: except_request_caught)
  then show ?thesis
    by (simp add: create_failure_caught_def v last)
qed

lemma create_label_requests:
  assumes "get_access_token w (CLIENT_ID w) (CLIENT_SECRET w) s0 = (Returned t, s1)" and "truthy t"
  shows "action_requests s1 (create_label w n d s0) =
    [\<lparr>meth = ''POST'', url = LABELS_API_URL,
      headers = [(''Authorization'', ''Bearer '' @ format w t),
                 (''Accept'', ''application/json''),
                 (''Content-Type'', ''application/json'')],
      payload = JsonBody [(''name'', n), (''description'', d)]\<rparr>]"
  using create_label_run [OF assms, of n d]
  by (auto simp add: action_requests_def post_and_decode_sent except_request_caught)

lemma add_proof_requests:
  assumes "get_access_token w (CLIENT_ID w) (CLIENT_SECRET w) s0 = (Returned t, s1)" and "truthy t"
    and "open_rb w p = Inr f"
  shows "action_requests s1 (add_proof w p oi ot s0) =
    [\<lparr>meth = ''POST'', url = PROOF_API_URL,
      headers = [(''Authorization'', ''Bearer '' @ format w t),
                 (''Accept'', ''application/json'')],
      payload = Multipart
        [(''proof'', \<lparr>part_filename = p, part_content = f,
                     part_type = Some ''application/json''\<rparr>)] 
        (if truthy_str oi \<and> truthy_str ot then
           [(''objectId'', oi), (''objectType'', ot)]
         else [])\<rparr>]"
  using add_proof_run [OF assms(1,2), of p oi ot] assms(3)
  by (elim exE conjE) (erule (2) upload_shape_requests)

lemma add_proof_returns_json:
  assumes "get_access_token w (CLIENT_ID w) (CLIENT_SECRET w) s0 = (Returned t, s1)" and "truthy t"
    and "open_rb w p = Inr f"
    and "http w
    \<lparr>meth = ''POST'', url = PROOF_API_URL,
      headers = [(''Authorization'', ''Bearer '' @ format w t),
                 (''Accept'', ''application/json'')],
      payload = Multipart
        [(''proof'', \<lparr>part_filename = p, part_content = f,
                     part_type = Some ''application/json''\<rparr>)] 
        (if truthy_str oi \<and> truthy_str ot then
           [(''objectId'', oi), (''objectType'', ot)]
         else [])\<rparr> = Inr r"
    and "\<not> (400 \<le> status_code r \<and> status_code r < 600)" and "resp_json r = Inr v"
  shows "fst (add_proof w p oi ot s0) = Returned v"
  using add_proof_run [OF assms(1,2), of p oi ot] assms(3-)
  by (elim exE conjE) (erule (4) upload_shape_ok)

lemma add_proof_version_requests:
  assumes "get_access_token w (CLIENT_ID w) (CLIENT_SECRET w) s0 = (Returned t, s1)" and "truthy t"
    and "open_rb w p = Inr f"
  shows "action_requests s1 (add_proof_version w i p c s0) =
    [\<lparr>meth = ''POST'', url = PROOF_API_URL @ ''/'' @ i @ ''/versions'',
      headers = [(''Authorization'', ''Bearer '' @ format w t),
                 (''Accept'', ''application/json'')],
      payload = Multipart
        [(''proof'', if truthy_str c then
                      \<lparr>part_filename = p, part_content = f, part_type = c\<rparr>
                    else
                      \<lparr>part_filename = p, part_content = f, part_type = None\<rparr>)] []\<rparr>]"
  using add_proof_version_run [OF assms(1,2), of i p c] assms(3)
  by (elim exE conjE) (erule (2) upload_shape_requests)

lemma add_proof_version_returns_json:
  assumes "get_access_token w (CLIENT_ID w) (CLIENT_SECRET w) s0 = (Returned t, s1)" and "truthy t"
    and "open_rb w p = Inr f"
    and "http w
    \<lparr>meth = ''POST'', url = PROOF_API_URL @ ''/'' @ i @ ''/versions'',
      headers = [(''Authorization'', ''Bearer '' @ format w t),
                 (''Accept'', ''application/json'')],
      payload = Multipart
        [(''proof'', if truthy_str c then
                      \<lparr>part_filename = p, part_content = f, part_type = c\<rparr>
                    else
                      \<lparr>part_filename = p, part_content = f, part_type = None\<rparr>)] []\<rparr> = Inr r"
    and "\<not> (400 \<le> status_code r \<and> status_code r < 600)" and "resp_json r = Inr v"
  shows "fst (add_proof_version w i p c s0) = Returned v"
  using add_proof_version_run [OF assms(1,2), of i p c] assms(3-)
  by (elim exE conjE) (erule (4) upload_shape_ok)

lemma add_control_proof_requests:
  assumes "get_access_token w (CLIENT_ID w) (CLIENT_SECRET w) s0 = (Returned t, s1)" and "truthy t"
    and "open_rb w p = Inr f"
  shows "action_requests s1 (add_control_proof w i p c s0) =
    [\<lparr>meth = ''POST'', url = CONTROLS_API_URL @ ''/'' @ i @ ''/proof'',
      headers = [(''Authorization'', ''Bearer '' @ format w t),
                 (''Accept'', ''application/json'')],
      payload = Multipart
        [(''proof'', if truthy_str c then
                      \<lparr>part_filename = p, part_content = f, part_type = c\<rparr>
                    else
                      \<lparr>part_filename = p, part_content = f, part_type = None\<rparr>)] []\<rparr>]"
  using add_control_proof_run [OF assms(1,2), of i p c] assms(3)
  by (elim exE conjE) (erule (2) upload_shape_requests)

lemma add_control_proof_returns_json:
  assumes "get_access_token w (CLIENT_ID w) (CLIENT_SECRET w) s0 = (Returned t, s1)" and "truthy t"
    and "open_rb w p = Inr f"
    and "http w
    \<lparr>meth = ''POST'', url = CONTROLS_API_URL @ ''/'' @ i @ ''/proof'',
      headers = [(''Authorization'', ''Bearer '' @ format w t),
                 (''Accept'', ''application/json'')],
      payload = Multipart
        [(''proof'', if truthy_str c then
                      \<lparr>part_filename = p, part_content = f, part_type = c\<rparr>
                    else
                      \<lparr>part_filename = p, part_content = f, part_type = None\<rparr>)] []\<rparr> = Inr r"
    and "\<not> (400 \<le> status_code r \<and> status_code r < 600)" and "resp_json r = Inr v"
  shows "fst (add_control_proof w i p c s0) = Returned v"
  using add_control_proof_run [OF assms(1,2), of i p c] assms(3-)
  by (elim exE conjE) (erule (4) upload_shape_ok)

lemma add_label_proof_requests:
  assumes "get_access_token w (CLIENT_ID w) (CLIENT_SECRET w) s0 = (Returned t, s1)" and "truthy t"
    and "open_rb w p = Inr f"
  shows "action_requests s1 (add_label_proof w i p c s0) =
    [\<lparr>meth = ''POST'', url = LABELS_API_URL @ ''/'' @ i @ ''/proof'',
      headers = [(''Authorization'', ''Bearer '' @ format w t),
                 (''Accept'', ''application/json'')],
      payload = Multipart
        [(''proof'', if truthy_str c then
                      \<lparr>part_filename = p, part_content = f, part_type = c\<rparr>
                    else
                      \<lparr>part_filename = p, part_content = f, part_type = None\<rparr>)] []\<rparr>]"
  using add_label_proof_run [OF assms(1,2), of i p c] assms(3)
  by (elim exE conjE) (erule (2) upload_shape_requests)

lemma add_label_proof_returns_json:
  assumes "get_access_token w (CLIENT_ID w) (CLIENT_SECRET w) s0 = (Returned t, s1)" and "truthy t"
    and "open_rb w p = Inr f"
    and "http w
    \<lparr>meth = ''POST'', url = LABELS_API_URL @ ''/'' @ i @ ''/proof'',
      headers = [(''Authorization'', ''Bearer '' @ format w t),
                 (''Accept'', ''application/json'')],
      payload = Multipart
        [(''proof'', if truthy_str c then
                      \<lparr>part_filename = p, part_content = f, part_type = c\<rparr>
                    else
                      \<lparr>part_filename = p, part_content = f, part_type = None\<rparr>)] []\<rparr> = Inr r"
    and "\<not> (400 \<le> status_code r \<and> status_code r < 600)" and "resp_json r = Inr v"
  shows "fst (add_label_proof w i p c s0) = Returned v"
  using add_label_proof_run [OF assms(1,2), of i p c] assms(3-)
  by (elim exE conjE) (erule (4) upload_shape_ok)

lemma add_control_proof_cha_requests:
  assumes "get_access_token_cha w (CLIENT_ID w) (CLIENT_SECRET w) s0 = (Returned t, s1)" and "truthy t"
    and "open_rb w p = Inr f"
  shows "action_requests s1 (add_control_proof_cha w i p c s0) =
    [\<lparr>meth = ''POST'', url = CONTROLS_API_URL_cha @ ''/'' @ i @ ''/proof'',
      headers = [(''Authorization'', ''Bearer '' @ format w t),
                 (''Accept'', ''application/json'')],
      payload = Multipart
        [(''proof'', if truthy_str c then
                      \<lparr>part_filename = p, part_content = f, part_type = c\<rparr>
                    else
                      \<lparr>part_filename = p, part_content = f, part_type = None\<rparr>)] []\<rparr>]"
  using add_control_proof_cha_run [OF assms(1,2), of i p c] assms(3)
  by (elim exE conjE) (erule (2) upload_shape_requests)

lemma add_control_proof_cha_returns_json:
  assumes "get_access_token_cha w (CLIENT_ID w) (CLIENT_SECRET w) s0 = (Returned t, s1)" and "truthy t"
    and "open_rb w p = Inr f"
    and "http w
    \<lparr>meth = ''POST'', url = CONTROLS_API_URL_cha @ ''/'' @ i @ ''/proof'',
      headers = [(''Authorization'', ''Bearer '' @ format w t),
                 (''Accept'', ''application/json'')],
      payload = Multipart
        [(''proof'', if truthy_str c then
                      \<lparr>part_filename = p, part_content = f, part_type = c\<rparr>
                    else
                      \<lparr>part_filename = p, part_content = f, part_type = None\<rparr>)] []\<rparr> = Inr r"
    and "\<not> (400 \<le> status_code r \<and> status_code r < 600)" and "resp_json r = Inr v"
  shows "fst (add_control_proof_cha w i p c s0) = Returned v"
  using add_control_proof_cha_run [OF assms(1,2), of i p c] assms(3-)
  by (elim exE conjE) (erule (4) upload_shape_ok)

subsection \<open>Fetching the controls\<close>





lemma fetch_hyperproof_controls_checks_credentials:
  assumes "\<not> truthy_str (CLIENT_ID w) \<or> \<not> truthy_str (CLIENT_SECRET w)"
  shows "fst (fetch_hyperproof_controls w s0) = Exited 1"
    and "sent (snd (fetch_hyperproof_controls w s0)) = sent s0"
  using assms by (auto simp add: fetch_hyperproof_controls_def print_def)







lemma get_access_token_stdout:
  "\<exists>ls. stdout (snd (get_access_token w i c s)) = stdout s @ ls"
  by (auto simp: get_access_token_def get_access_token_except_def send_def print_def
       Let_def split: sum.splits option.splits if_splits)

subsection \<open>The length of a string\<close>

lemma code_points_ascii: "code_points ''data'' = 4"
  by (simp add: code_points_def)

lemma code_points_check_mark: "py_len (PyStr check_mark) = Inr 1"
  by (simp add: code_points_def check_mark_def)

section \<open>The claims\<close>

text \<open>
  Claim C1 says that on every failure, a response with a status other than 200 included,
  \<open>get_access_token\<close> reports an error and returns \<^verbatim>\<open>None\<close>. On a response with status 500
  the function returns \<^verbatim>\<open>None\<close> and prints nothing but the line that announces the attempt:
  the \<^verbatim>\<open>if response.status_code == 200\<close> has no \<^verbatim>\<open>else\<close>. (The lemmas
  \<open>get_access_token_outcome\<close> and \<open>get_access_token_non_200\<close> give the general picture.)
\<close>

theorem get_access_token_silent_on_status_500:
  "get_access_token (example_world (answer server_error created)) (Some ''id'') (Some ''secret'')
     no_effects =
     (Returned PyNone,
      \<lparr>sent = [token_request (Some ''id'') (Some ''secret'')],
       stdout = [''Attempting to fetch access token from https://accounts.hyperproof.app/oauth/token...''],
       logged = []\<rparr>)"
  by (simp add: run_defs world_defs token_request_def)

text \<open>
  Claim C2 says that every operation halts before any network call when \<^verbatim>\<open>CLIENT_ID\<close> or
  \<^verbatim>\<open>CLIENT_SECRET\<close> is missing. Only \<open>fetch_hyperproof_controls\<close> checks them (lemma
  \<open>fetch_hyperproof_controls_checks_credentials\<close>). With both missing, \<open>add_proof\<close> sends the
  token request, with \<^verbatim>\<open>None\<close> for both credentials, and exits only after the token
  endpoint has refused; were the endpoint to answer with a token, the upload would follow.
\<close>

theorem add_proof_without_credentials_sends_token_request:
  "fst (add_proof (without_credentials (example_world (answer unauthorized created)))
          ''evidence.json'' None None no_effects) = Exited 1
   \<and> sent (snd (add_proof (without_credentials (example_world (answer unauthorized created)))
                    ''evidence.json'' None None no_effects)) = [token_request None None]
   \<and> map url (sent (snd (add_proof (without_credentials (example_world (answer token_ok created)))
                    ''evidence.json'' None None no_effects)))
       = [''https://accounts.hyperproof.app/oauth/token'', ''https://api.hyperproof.app/v1/proof/'']"
  by (simp add: add_proof_def run_defs world_defs token_request_def raise_for_status_def)

text \<open>
  Claim C3. In each of the nine upload, create and link functions of the two scripts: when
  token acquisition returns a value that fails the truth test (\<^verbatim>\<open>None\<close>), the process ends
  with exit status 1 and nothing has been sent beyond the token request; when it returns a
  token, the function returns a value (no exception leaves it, the process does not end),
  and whenever the action failed (the file could not be opened, the HTTP call raised, the
  response had a 4xx or 5xx status, or its body could not be decoded) that value is
  \<^verbatim>\<open>None\<close> and the last log record is an error.
\<close>

theorem token_failure_exits_action_failure_returns_none:
  assumes "get_access_token w (CLIENT_ID w) (CLIENT_SECRET w) s0 = (Returned t, s1)"
    and "get_access_token_cha w (CLIENT_ID w) (CLIENT_SECRET w) s0 = (Returned t, s1)"
  shows "if truthy t then
           upload_failure_caught w p (add_proof w p oi ot s0)
           \<and> upload_failure_caught w p (add_proof_version w i p c s0)
           \<and> upload_failure_caught w p (add_control_proof w i p c s0)
           \<and> create_failure_caught w (create_label w n d s0)
           \<and> upload_failure_caught w p (add_label_proof w i p c s0)
           \<and> link_failure_caught w (link_label_to_control w i j s0)
           \<and> upload_failure_caught w p (add_proof_cha w p oi ot s0)
           \<and> upload_failure_caught w p (add_proof_version_cha w i p c s0)
           \<and> upload_failure_caught w p (add_control_proof_cha w i p c s0)
         else
           halted s1 (add_proof w p oi ot s0)
           \<and> halted s1 (add_proof_version w i p c s0)
           \<and> halted s1 (add_control_proof w i p c s0)
           \<and> halted s1 (create_label w n d s0)
           \<and> halted s1 (add_label_proof w i p c s0)
           \<and> halted s1 (link_label_to_control w i j s0)
           \<and> halted s1 (add_proof_cha w p oi ot s0)
           \<and> halted s1 (add_proof_version_cha w i p c s0)
           \<and> halted s1 (add_control_proof_cha w i p c s0)"
proof (cases "truthy t")
  case True
  note tok = assms(1) True
  have "upload_failure_caught w p (add_proof w p oi ot s0)"
    using add_proof_run [OF tok, of p oi ot] by (elim exE conjE) (erule upload_shape_caught)
  moreover have "upload_failure_caught w p (add_proof_version w i p c s0)"
    using add_proof_version_run [OF tok, of i p c] by (elim exE conjE) (erule upload_shape_caught)
  moreover have "upload_failure_caught w p (add_control_proof w i p c s0)"
    using add_control_proof_run [OF tok, of i p c] by (elim exE conjE) (erule upload_shape_caught)
  moreover have "create_failure_caught w (create_label w n d s0)"
    by (rule create_label_caught [OF tok])
  moreover have "upload_failure_caught w p (add_label_proof w i p c s0)"
    using add_label_proof_run [OF tok, of i p c] by (elim exE conjE) (erule upload_shape_caught)
  moreover have "link_failure_caught w (link_label_to_control w i j s0)"
    using link_label_to_control_run [OF tok, of i j]
    by (simp add: link_failure_caught_def)
  moreover have "upload_failure_caught w p (add_control_proof_cha w i p c s0)"
    using add_control_proof_cha_run [OF assms(2) True, of i p c]
    by (elim exE conjE) (erule upload_shape_caught)
  ultimately show ?thesis
    using True by (simp add: add_proof_cha_eq add_proof_version_cha_eq)
next
  case False
  note tok = assms(1) False
  show ?thesis
    using False add_proof_fatal [OF tok] add_proof_version_fatal [OF tok]
      add_control_proof_fatal [OF tok] create_label_fatal [OF tok] add_label_proof_fatal [OF tok]
      link_label_to_control_fatal [OF tok] add_control_proof_cha_fatal [OF assms(2) False]
    by (simp add: halted_def add_proof_cha_eq add_proof_version_cha_eq)
qed

theorem token_failure_exits_action_failure_returns_none_witness:
  "upload_failed (example_world (answer token_ok not_found)) ''evidence.json''
     (snd (add_proof (example_world (answer token_ok not_found))
             ''evidence.json'' None None no_effects))
   \<and> fst (add_proof (example_world (answer token_ok not_found))
             ''evidence.json'' None None no_effects) = Returned PyNone
   \<and> error_logged (snd (add_proof (example_world (answer token_ok not_found))
             ''evidence.json'' None None no_effects))
   \<and> upload_failed (example_world (answer token_ok created)) ''missing.json''
         (snd (add_proof_version (example_world (answer token_ok created))
                 ''P1'' ''missing.json'' None no_effects))
   \<and> fst (add_proof_version (example_world (answer token_ok created))
             ''P1'' ''missing.json'' None no_effects) = Returned PyNone
   \<and> fst (create_label (example_world (answer token_ok not_found))
             ''Q4'' ''evidence'' no_effects) = Returned PyNone
   \<and> fst (link_label_to_control (example_world (answer token_ok not_found))
             ''C1'' ''L1'' no_effects) = Returned PyNone
   \<and> fst (get_access_token (example_world (answer server_error created))
             (Some ''id'') (Some ''secret'') no_effects) = Returned PyNone
   \<and> fst (add_proof (example_world (answer server_error created))
             ''evidence.json'' None None no_effects) = Exited 1
   \<and> length (sent (snd (add_proof (example_world (answer server_error created))
             ''evidence.json'' None None no_effects))) = 1"
proof -
  let ?a = "example_world (answer token_ok not_found)"
  let ?b = "example_world (answer token_ok created)"
  let ?c = "example_world (answer server_error created)"
  have a: "get_access_token ?a (CLIENT_ID ?a) (CLIENT_SECRET ?a) no_effects =
             (Returned (PyStr ''tok''),
              snd (get_access_token ?a (CLIENT_ID ?a) (CLIENT_SECRET ?a) no_effects))"
    by (simp add: prod_eq_iff run_defs world_defs)
  have b: "get_access_token ?b (CLIENT_ID ?b) (CLIENT_SECRET ?b) no_effects =
             (Returned (PyStr ''tok''),
              snd (get_access_token ?b (CLIENT_ID ?b) (CLIENT_SECRET ?b) no_effects))"
    by (simp add: prod_eq_iff run_defs world_defs)
  have c: "get_access_token ?c (CLIENT_ID ?c) (CLIENT_SECRET ?c) no_effects =
             (Returned PyNone,
              snd (get_access_token ?c (CLIENT_ID ?c) (CLIENT_SECRET ?c) no_effects))"
    by (simp add: prod_eq_iff run_defs world_defs)
  have a': "get_access_token_cha ?a (CLIENT_ID ?a) (CLIENT_SECRET ?a) no_effects =
             (Returned (PyStr ''tok''),
              snd (get_access_token ?a (CLIENT_ID ?a) (CLIENT_SECRET ?a) no_effects))"
    using a by (simp only: get_access_token_cha_eq)
  have b': "get_access_token_cha ?b (CLIENT_ID ?b) (CLIENT_SECRET ?b) no_effects =
             (Returned (PyStr ''tok''),
              snd (get_access_token ?b (CLIENT_ID ?b) (CLIENT_SECRET ?b) no_effects))"
    using b by (simp only: get_access_token_cha_eq)
  have c': "get_access_token_cha ?c (CLIENT_ID ?c) (CLIENT_SECRET ?c) no_effects =
             (Returned PyNone,
              snd (get_access_token ?c (CLIENT_ID ?c) (CLIENT_SECRET ?c) no_effects))"
    using c by (simp only: get_access_token_cha_eq)
  note A = token_failure_exits_action_failure_returns_none
             [OF a a',
              where p = "''evidence.json''" and oi = None and ot = None and i = "''C1''"
                and j = "''L1''" and c = None and n = "''Q4''" and d = "''evidence''"]
  note B = token_failure_exits_action_failure_returns_none
             [OF b b',
              where p = "''missing.json''" and oi = None and ot = None and i = "''P1''"
                and j = "''L1''" and c = None and n = "''Q4''" and d = "''evidence''"]
  note C = token_failure_exits_action_failure_returns_none
             [OF c c',
              where p = "''evidence.json''" and oi = None and ot = None and i = "''C1''"
                and j = "''L1''" and c = None and n = "''Q4''" and d = "''evidence''"]
  have up: "upload_failed ?a ''evidence.json''
              (snd (add_proof ?a ''evidence.json'' None None no_effects))"
    by (simp add: prop_defs add_proof_def run_defs world_defs raise_for_status_def)
  have ver: "upload_failed ?b ''missing.json''
               (snd (add_proof_version ?b ''P1'' ''missing.json'' None no_effects))"
    by (simp add: prop_defs world_defs)
  have lab: "request_failed ?a (last (sent (snd (create_label ?a ''Q4'' ''evidence'' no_effects))))"
    by (simp add: prop_defs create_label_def run_defs world_defs raise_for_status_def)
  have lnk: "request_failed ?a
               (last (sent (snd (link_label_to_control ?a ''C1'' ''L1'' no_effects))))"
    by (simp add: prop_defs link_label_to_control_def run_defs world_defs raise_for_status_def)
  have one: "sent (snd (get_access_token ?c (CLIENT_ID ?c) (CLIENT_SECRET ?c) no_effects))
               = [token_request (Some ''id'') (Some ''secret'')]"
    by (simp add: get_access_token_sent no_effects_def example_world_def)
  have A1: "upload_failure_caught ?a ''evidence.json''
              (add_proof ?a ''evidence.json'' None None no_effects)"
    and A2: "create_failure_caught ?a (create_label ?a ''Q4'' ''evidence'' no_effects)"
    and A3: "link_failure_caught ?a (link_label_to_control ?a ''C1'' ''L1'' no_effects)"
    using A by simp_all
  have B1: "upload_failure_caught ?b ''missing.json''
              (add_proof_version ?b ''P1'' ''missing.json'' None no_effects)"
    using B by simp
  have C1: "halted (snd (get_access_token ?c (CLIENT_ID ?c) (CLIENT_SECRET ?c) no_effects))
              (add_proof ?c ''evidence.json'' None None no_effects)"
    using C by simp
  have r1: "fst (add_proof ?a ''evidence.json'' None None no_effects) = Returned PyNone
            \<and> error_logged (snd (add_proof ?a ''evidence.json'' None None no_effects))"
    using A1 up by (simp add: upload_failure_caught_def split: result.splits)
  have r2: "fst (add_proof_version ?b ''P1'' ''missing.json'' None no_effects) = Returned PyNone"
    using B1 ver by (simp add: upload_failure_caught_def split: result.splits)
  have r3: "fst (create_label ?a ''Q4'' ''evidence'' no_effects) = Returned PyNone"
    using A2 lab by (simp add: create_failure_caught_def split: result.splits)
  have r4: "fst (link_label_to_control ?a ''C1'' ''L1'' no_effects) = Returned PyNone"
    using A3 lnk by (simp add: link_failure_caught_def split: result.splits)
  have r5: "fst (get_access_token ?c (Some ''id'') (Some ''secret'') no_effects) = Returned PyNone"
    using c by (simp add: example_world_def prod_eq_iff)
  have r6: "fst (add_proof ?c ''evidence.json'' None None no_effects) = Exited 1
            \<and> length (sent (snd (add_proof ?c ''evidence.json'' None None no_effects))) = 1"
    using C1 one by (simp add: halted_def)
  show ?thesis
    using up ver r1 r2 r3 r4 r5 r6 by blast
qed

text \<open>
  Claim C4 says that \<open>add_control_proof\<close> posts to the path \<^verbatim>\<open>/v1/controls/C1/proof\<close> for the
  control \<^verbatim>\<open>C1\<close>, with no doubled slash. In \<^verbatim>\<open>call_hyperproof_api.py\<close> the base URL ends in a
  slash and the function adds another, so the path is \<^verbatim>\<open>/v1/controls//C1/proof\<close>. (The copy in
  \<^verbatim>\<open>add_proof_to_control.py\<close> does what the claim says: lemmas \<open>add_control_proof_requests\<close>
  and \<open>add_control_proof_returns_json\<close>.)
\<close>

theorem add_control_proof_cha_doubled_slash:
  "map url (sent (snd (add_control_proof_cha (example_world (answer token_ok created))
                         ''C1'' ''evidence.json'' None no_effects)))
     = [''https://accounts.hyperproof.app/oauth/token'',
        ''https://api.hyperproof.app/v1/controls//C1/proof'']"
  by (simp add: add_control_proof_cha_def run_defs world_defs raise_for_status_def)

text \<open>
  Claim C5 says that no upload sets a content type for the file part unless the caller
  supplies one. \<open>add_proof\<close> has no such parameter and always sets
  \<^verbatim>\<open>application/json\<close>: of its two requests, the token request has no file part and the
  upload has one part of that type.
\<close>

theorem add_proof_sets_part_type_counterexample:
  "map part_types (sent (snd (add_proof (example_world (answer token_ok created))
                         ''evidence.json'' None None no_effects)))
     = [[], [Some ''application/json'']]"
  by (simp add: add_proof_def run_defs world_defs raise_for_status_def part_types_def)

text \<open>
  Claim C5, amended. Once a token is obtained, \<open>create_label\<close> sends one request, with the
  header \<^verbatim>\<open>Content-Type: application/json\<close> and a JSON body of the name and the description.
  Once a token is obtained and the file is open, every upload function sends one request,
  multipart and with no \<^verbatim>\<open>Content-Type\<close> header; its file part has the content type
  \<^verbatim>\<open>application/json\<close> in \<open>add_proof\<close>, and in the other functions the caller's
  \<open>content_type\<close> when that is a non-empty string and none otherwise.
\<close>

theorem content_types_of_label_and_upload_requests:
  assumes "get_access_token w (CLIENT_ID w) (CLIENT_SECRET w) s0 = (Returned t, s1)"
    and "get_access_token_cha w (CLIENT_ID w) (CLIENT_SECRET w) s0 = (Returned t, s1)"
    and "truthy t" and "open_rb w p = Inr f"
  shows "map content_type_header (action_requests s1 (create_label w n d s0))
           = [Some ''application/json'']
         \<and> map payload (action_requests s1 (create_label w n d s0))
           = [JsonBody [(''name'', n), (''description'', d)]]
         \<and> upload_sent s1 (add_proof w p oi ot s0)
           = [(None, True, [Some ''application/json''])]
         \<and> upload_sent s1 (add_proof_version w i p c s0)
           = [(None, True, [if truthy_str c then c else None])]
         \<and> upload_sent s1 (add_control_proof w i p c s0)
           = [(None, True, [if truthy_str c then c else None])]
         \<and> upload_sent s1 (add_label_proof w i p c s0)
           = [(None, True, [if truthy_str c then c else None])]
         \<and> upload_sent s1 (add_proof_cha w p oi ot s0)
           = [(None, True, [Some ''application/json''])]
         \<and> upload_sent s1 (add_proof_version_cha w i p c s0)
           = [(None, True, [if truthy_str c then c else None])]
         \<and> upload_sent s1 (add_control_proof_cha w i p c s0)
           = [(None, True, [if truthy_str c then c else None])]"
proof -
  note tok = assms(1,3)
  have "map content_type_header (action_requests s1 (create_label w n d s0))
          = [Some ''application/json'']"
    and "map payload (action_requests s1 (create_label w n d s0))
          = [JsonBody [(''name'', n), (''description'', d)]]"
    by (simp_all add: create_label_requests [OF tok] content_type_header_def)
  moreover have "upload_sent s1 (add_proof w p oi ot s0) = [(None, True, [Some ''application/json''])]"
    by (simp add: add_proof_requests [OF tok assms(4)] request_defs)
  moreover have "upload_sent s1 (add_proof_version w i p c s0)
                   = [(None, True, [if truthy_str c then c else None])]"
    by (simp add: add_proof_version_requests [OF tok assms(4)] request_defs)
  moreover have "upload_sent s1 (add_control_proof w i p c s0)
                   = [(None, True, [if truthy_str c then c else None])]"
    by (simp add: add_control_proof_requests [OF tok assms(4)] request_defs)
  moreover have "upload_sent s1 (add_label_proof w i p c s0)
                   = [(None, True, [if truthy_str c then c else None])]"
    by (simp add: add_label_proof_requests [OF tok assms(4)] request_defs)
  moreover have "upload_sent s1 (add_control_proof_cha w i p c s0)
                   = [(None, True, [if truthy_str c then c else None])]"
    by (simp add: add_control_proof_cha_requests [OF assms(2,3,4)] request_defs)
  ultimately show ?thesis
    by (simp add: add_proof_cha_eq add_proof_version_cha_eq)
qed

theorem content_types_of_label_and_upload_requests_witness:
  "upload_sent
     (snd (get_access_token (example_world (answer token_ok created))
             (Some ''id'') (Some ''secret'') no_effects))
     (add_control_proof (example_world (answer token_ok created)) ''C1'' ''evidence.json''
        (Some ''application/pdf'') no_effects)
     = [(None, True, [Some ''application/pdf''])]
   \<and> upload_sent
     (snd (get_access_token (example_world (answer token_ok created))
             (Some ''id'') (Some ''secret'') no_effects))
     (add_proof_version (example_world (answer token_ok created)) ''C1'' ''evidence.json''
        None no_effects)
     = [(None, True, [None])]
   \<and> upload_sent
     (snd (get_access_token (example_world (answer token_ok created))
             (Some ''id'') (Some ''secret'') no_effects))
     (add_proof (example_world (answer token_ok created)) ''evidence.json'' None None no_effects)
     = [(None, True, [Some ''application/json''])]
   \<and> map content_type_header
     (action_requests
        (snd (get_access_token (example_world (answer token_ok created))
                (Some ''id'') (Some ''secret'') no_effects))
        (create_label (example_world (answer token_ok created)) ''Q4'' ''evidence'' no_effects))
     = [Some ''application/json'']"
proof -
  let ?w = "example_world (answer token_ok created)"
  have tok: "get_access_token ?w (CLIENT_ID ?w) (CLIENT_SECRET ?w) no_effects =
               (Returned (PyStr ''tok''),
                snd (get_access_token ?w (Some ''id'') (Some ''secret'') no_effects))"
    by (simp add: prod_eq_iff run_defs world_defs)
  have tok': "get_access_token_cha ?w (CLIENT_ID ?w) (CLIENT_SECRET ?w) no_effects =
               (Returned (PyStr ''tok''),
                snd (get_access_token ?w (Some ''id'') (Some ''secret'') no_effects))"
    using tok by (simp only: get_access_token_cha_eq)
  have tr: "truthy (PyStr ''tok'')"
    by simp
  have op: "open_rb ?w ''evidence.json'' = Inr ''{}''"
    by (simp add: example_world_def)
  show ?thesis
    using content_types_of_label_and_upload_requests [OF tok tok' tr op,
        where i = "''C1''" and c = "Some ''application/pdf''" and n = "''Q4''"
          and d = "''evidence''" and oi = None and ot = None]
      content_types_of_label_and_upload_requests [OF tok tok' tr op,
        where i = "''C1''" and c = None and n = "''Q4''"
          and d = "''evidence''" and oi = None and ot = None]
    by simp
qed

text \<open>
  Claim C6 says that every sub-resource URL joins base and template by exactly one slash.
  \<^verbatim>\<open>PROOF_API_URL\<close> and \<^verbatim>\<open>LABELS_API_URL\<close> end in a slash and the templates start with one,
  so the URLs of \<open>add_proof_version\<close> (in both scripts) and \<open>add_label_proof\<close> have a
  doubled slash. (The URL of \<open>link_label_to_control\<close> is as the claim says: lemma
  \<open>link_label_to_control_run\<close>.)
\<close>

theorem proof_version_and_label_proof_doubled_slash:
  "map url (sent (snd (add_proof_version (example_world (answer token_ok created))
                         ''P1'' ''evidence.json'' None no_effects)))
     = [''https://accounts.hyperproof.app/oauth/token'',
        ''https://api.hyperproof.app/v1/proof//P1/versions'']
   \<and> map url (sent (snd (add_proof_version_cha (example_world (answer token_ok created))
                         ''P1'' ''evidence.json'' None no_effects)))
     = [''https://accounts.hyperproof.app/oauth/token'',
        ''https://api.hyperproof.app/v1/proof//P1/versions'']
   \<and> map url (sent (snd (add_label_proof (example_world (answer token_ok created))
                         ''L1'' ''evidence.json'' None no_effects)))
     = [''https://accounts.hyperproof.app/oauth/token'',
        ''https://api.hyperproof.app/v1/labels//L1/proof'']"
  by (simp add: add_proof_version_def add_proof_version_cha_def add_label_proof_def
        run_defs world_defs raise_for_status_def)

text \<open>
  Claim C7 says that \<open>link_label_to_control\<close> returns a boolean on every outcome, true
  exactly when the response is 2xx. On a 404 it returns \<^verbatim>\<open>None\<close>, on a 304 it returns
  \<^verbatim>\<open>True\<close>, and when no token is obtained it does not return.
\<close>

theorem link_label_to_control_not_boolean_counterexample:
  "fst (link_label_to_control (example_world (answer token_ok not_found))
          ''C1'' ''L1'' no_effects) = Returned PyNone
   \<and> fst (link_label_to_control (example_world (answer token_ok not_modified))
          ''C1'' ''L1'' no_effects) = Returned (PyBool True)
   \<and> fst (link_label_to_control (example_world (answer unauthorized created))
          ''C1'' ''L1'' no_effects) = Exited 1"
  by (simp add: link_label_to_control_def run_defs world_defs raise_for_status_def)

text \<open>
  Claim C7, amended. When token acquisition returns a token, \<open>link_label_to_control\<close> sends
  one POST request with no body to the controls base URL followed by
  \<^verbatim>\<open>/{control_id}/labels/{label_id}\<close>, and returns \<^verbatim>\<open>True\<close> when a response arrives whose
  status is not 4xx or 5xx, and \<^verbatim>\<open>None\<close> otherwise; it never returns a payload. When token
  acquisition returns \<^verbatim>\<open>None\<close>, the process exits with status 1.
\<close>

theorem link_label_to_control_result:
  assumes "get_access_token w (CLIENT_ID w) (CLIENT_SECRET w) s0 = (Returned t, s1)"
  shows "if truthy t then
           action_requests s1 (link_label_to_control w ci li s0)
             = [\<lparr>meth = ''POST'', url = CONTROLS_API_URL @ ''/'' @ ci @ ''/labels/'' @ li,
                 headers = [(''Authorization'', ''Bearer '' @ format w t),
                            (''Accept'', ''application/json'')],
                 payload = NoBody\<rparr>]
           \<and> fst (link_label_to_control w ci li s0)
             = Returned (if request_failed w
                              \<lparr>meth = ''POST'',
                               url = CONTROLS_API_URL @ ''/'' @ ci @ ''/labels/'' @ li,
                               headers = [(''Authorization'', ''Bearer '' @ format w t),
                                          (''Accept'', ''application/json'')],
                               payload = NoBody\<rparr>
                         then PyNone else PyBool True)
         else halted s1 (link_label_to_control w ci li s0)"
proof (cases "truthy t")
  case True
  note run = link_label_to_control_run [OF assms True, of ci li]
  show ?thesis
    using True run(2) by (simp add: run(1) action_requests_def)
next
  case False
  then show ?thesis
    using link_label_to_control_fatal [OF assms False, of ci li] by (simp add: halted_def)
qed

theorem link_label_to_control_result_witness:
  "fst (link_label_to_control (example_world (answer token_ok created)) ''C1'' ''L1'' no_effects)
     = Returned (PyBool True)
   \<and> map url (action_requests
        (snd (get_access_token (example_world (answer token_ok created))
                (Some ''id'') (Some ''secret'') no_effects))
        (link_label_to_control (example_world (answer token_ok created)) ''C1'' ''L1'' no_effects))
     = [''https://api.hyperproof.app/v1/controls/C1/labels/L1'']
   \<and> fst (link_label_to_control (example_world (answer token_ok not_found)) ''C1'' ''L1''
          no_effects)
     = Returned PyNone"
proof -
  let ?w = "example_world (answer token_ok created)"
  let ?v = "example_world (answer token_ok not_found)"
  have tok: "get_access_token ?w (CLIENT_ID ?w) (CLIENT_SECRET ?w) no_effects =
               (Returned (PyStr ''tok''),
                snd (get_access_token ?w (Some ''id'') (Some ''secret'') no_effects))"
    by (simp add: prod_eq_iff run_defs world_defs)
  have tok': "get_access_token ?v (CLIENT_ID ?v) (CLIENT_SECRET ?v) no_effects =
               (Returned (PyStr ''tok''),
                snd (get_access_token ?v (Some ''id'') (Some ''secret'') no_effects))"
    by (simp add: prod_eq_iff run_defs world_defs)
  show ?thesis
    using link_label_to_control_result [OF tok, of "''C1''" "''L1''"]
      link_label_to_control_result [OF tok', of "''C1''" "''L1''"]
    by (simp add: link_label_to_control_def run_defs world_defs raise_for_status_def
          request_failed_def action_requests_def)
qed

text \<open>
  Claim C8 says that the functions defined in both scripts send the same requests. For the
  same world and the same arguments, the two copies of \<open>add_control_proof\<close> post to
  different URLs, since the two \<^verbatim>\<open>CONTROLS_API_URL\<close> differ by a trailing slash. (The other
  three copies are equal: lemmas \<open>get_access_token_cha_eq\<close>, \<open>add_proof_cha_eq\<close> and
  \<open>add_proof_version_cha_eq\<close>.)
\<close>

theorem add_control_proof_copies_send_different_urls:
  "map url (sent (snd (add_control_proof (example_world (answer token_ok created))
                         ''C1'' ''evidence.json'' None no_effects)))
     = [''https://accounts.hyperproof.app/oauth/token'',
        ''https://api.hyperproof.app/v1/controls/C1/proof'']
   \<and> map url (sent (snd (add_control_proof_cha (example_world (answer token_ok created))
                         ''C1'' ''evidence.json'' None no_effects)))
     = [''https://accounts.hyperproof.app/oauth/token'',
        ''https://api.hyperproof.app/v1/controls//C1/proof'']"
  by (simp add: add_control_proof_def add_control_proof_cha_def run_defs world_defs
        raise_for_status_def)

text \<open>
  Claim C9. When the upload request of \<open>add_proof\<close> is sent (a token is obtained and the
  file is open), its form fields are \<^verbatim>\<open>objectId\<close> and \<^verbatim>\<open>objectType\<close> when both arguments are
  non-empty strings, and there are no form fields otherwise, so also when only one of the
  two is given. The same holds in both scripts.
\<close>

theorem add_proof_object_fields:
  assumes "get_access_token w (CLIENT_ID w) (CLIENT_SECRET w) s0 = (Returned t, s1)"
    and "get_access_token_cha w (CLIENT_ID w) (CLIENT_SECRET w) s0 = (Returned t, s1)"
    and "truthy t" and "open_rb w p = Inr f"
  shows "map form_fields (action_requests s1 (add_proof w p oi ot s0))
           = [if truthy_str oi \<and> truthy_str ot
              then [(''objectId'', oi), (''objectType'', ot)] else []]
         \<and> map form_fields (action_requests s1 (add_proof_cha w p oi ot s0))
           = [if truthy_str oi \<and> truthy_str ot
              then [(''objectId'', oi), (''objectType'', ot)] else []]"
  using add_proof_requests [OF assms(1,3,4), of oi ot]
  by (simp add: add_proof_cha_eq form_fields_def)

theorem add_proof_object_fields_witness:
  "map form_fields
     (action_requests
        (snd (get_access_token (example_world (answer token_ok created))
                (Some ''id'') (Some ''secret'') no_effects))
        (add_proof (example_world (answer token_ok created)) ''evidence.json''
           (Some ''66487523'') (Some ''controls'') no_effects))
     = [[(''objectId'', Some ''66487523''), (''objectType'', Some ''controls'')]]
   \<and> map form_fields
     (action_requests
        (snd (get_access_token (example_world (answer token_ok created))
                (Some ''id'') (Some ''secret'') no_effects))
        (add_proof (example_world (answer token_ok created)) ''evidence.json''
           (Some ''66487523'') None no_effects))
     = [[]]
   \<and> map form_fields
     (action_requests
        (snd (get_access_token (example_world (answer token_ok created))
                (Some ''id'') (Some ''secret'') no_effects))
        (add_proof_cha (example_world (answer token_ok created)) ''evidence.json''
           (Some '''') (Some ''controls'') no_effects))
     = [[]]"
proof -
  let ?w = "example_world (answer token_ok created)"
  have ids: "CLIENT_ID ?w = Some ''id''" "CLIENT_SECRET ?w = Some ''secret''"
    by (simp_all add: example_world_def)
  have tok: "get_access_token ?w (CLIENT_ID ?w) (CLIENT_SECRET ?w) no_effects =
               (Returned (PyStr ''tok''),
                snd (get_access_token ?w (Some ''id'') (Some ''secret'') no_effects))"
    by (simp add: prod_eq_iff run_defs world_defs)
  have tok': "get_access_token_cha ?w (CLIENT_ID ?w) (CLIENT_SECRET ?w) no_effects =
               (Returned (PyStr ''tok''),
                snd (get_access_token ?w (Some ''id'') (Some ''secret'') no_effects))"
    using tok by (simp only: get_access_token_cha_eq)
  have tr: "truthy (PyStr ''tok'')"
    by simp
  have op: "open_rb ?w ''evidence.json'' = Inr ''{}''"
    by (simp add: example_world_def)
  show ?thesis
    using add_proof_object_fields [OF tok tok' tr op, of "Some ''66487523''" "Some ''controls''"]
      add_proof_object_fields [OF tok tok' tr op, of "Some ''66487523''" None]
      add_proof_object_fields [OF tok tok' tr op, of "Some ''''" "Some ''controls''"]
    by simp
qed




end
